theory Spec2Isabelle
  imports Complex_Main
begin

section \<open>JavaScript strings and values\<close>

text \<open>
  Strings are byte lists holding the UTF-8 encoding of the JavaScript string; the Korean
  keywords of the source are written out as their UTF-8 bytes. \<open>s.includes(p)\<close> and
  \<open>s.startsWith(p)\<close> on well-formed text agree with substring and prefix on the bytes.
\<close>

fun startsWith :: "string \<Rightarrow> string \<Rightarrow> bool" where
  "startsWith s [] = True"
| "startsWith [] (p # ps) = False"
| "startsWith (c # cs) (p # ps) = (if c = p then startsWith cs ps else False)"

fun js_includes :: "string \<Rightarrow> string \<Rightarrow> bool" where
  "js_includes [] p = (p = [])"
| "js_includes (c # cs) p = (if startsWith (c # cs) p then True else js_includes cs p)"

definition lowerChar :: "char \<Rightarrow> char" where
  "lowerChar c =
     (let n = (of_char c :: nat) in if 65 \<le> n \<and> n \<le> 90 then char_of (n + 32) else c)"

definition toLowerCase :: "string \<Rightarrow> string" where
  \<comment> \<open>\<open>s.toLowerCase()\<close> on the ASCII letters; Hangul has no case.\<close>
  "toLowerCase s = map lowerChar s"

definition truthy :: "string option \<Rightarrow> bool" where
  \<comment> \<open>\<open>undefined\<close>, \<open>null\<close> and the empty string are falsy.\<close>
  "truthy v = (case v of None \<Rightarrow> False | Some s \<Rightarrow> s \<noteq> [])"

definition js_or :: "string option \<Rightarrow> string option \<Rightarrow> string option" where
  \<comment> \<open>\<open>a || b\<close> on optional strings.\<close>
  "js_or a b = (if truthy a then a else b)"

definition orEmpty :: "string option \<Rightarrow> string" where
  \<comment> \<open>\<open>v || ''\<close>\<close>
  "orEmpty v = (case v of None \<Rightarrow> [] | Some s \<Rightarrow> s)"

definition lowerOrEmpty :: "string option \<Rightarrow> string" where
  \<comment> \<open>\<open>v?.toLowerCase() || ''\<close>\<close>
  "lowerOrEmpty v = (case v of None \<Rightarrow> [] | Some s \<Rightarrow> toLowerCase s)"

definition templateString :: "string option \<Rightarrow> string" where
  \<comment> \<open>a value interpolated into a template literal\<close>
  "templateString v = (case v of None \<Rightarrow> ''undefined'' | Some s \<Rightarrow> s)"

fun splitOn :: "char \<Rightarrow> string \<Rightarrow> string list" where
  \<comment> \<open>\<open>s.split(c)\<close>: never empty, \<open>''.split(c) = ['']\<close>\<close>
  "splitOn sep [] = [[]]"
| "splitOn sep (c # cs) =
     (if c = sep then [] # splitOn sep cs
      else (case splitOn sep cs of [] \<Rightarrow> [[c]] | p # ps \<Rightarrow> (c # p) # ps))"

definition digitChar :: "nat \<Rightarrow> char" where
  "digitChar d = char_of (48 + d)"

fun showNat :: "nat \<Rightarrow> string" where
  "showNat n = (if n < 10 then [digitChar n] else showNat (n div 10) @ [digitChar (n mod 10)])"

definition showInt :: "int \<Rightarrow> string" where
  \<comment> \<open>an integer interpolated into a template literal\<close>
  "showInt i = (if i < 0 then CHR ''-'' # showNat (nat (- i)) else showNat (nat i))"

datatype error = Error (message: string)

section \<open>Data model\<close>

subsection \<open>Provider responses\<close>

text \<open>
  \<open>response.choices[0].message.content\<close> of a chat completion, after \<open>JSON.parse\<close>:
  absent or empty (\<open>!content\<close>), not parseable (\<open>JSON.parse\<close> throws), or the parsed object.
\<close>

datatype 'a message_content = NoContent | Unparseable | Parsed 'a

record api_usage =
  api_prompt_tokens :: int
  api_completion_tokens :: int
  api_total_tokens :: int

record 'a chat_completion =
  choices :: "'a message_content list"
  usage :: "api_usage option"

record ocr_json =
  json_isKoreanMenu :: bool
  json_extractedNames :: "string list option"
  json_totalDetected :: "int option"

record food_json =
  json_nameKorean :: string
  json_nameEnglish :: string
  json_description :: string
  json_descriptionEnglish :: "string option"
  json_ingredients :: "string list option"
  json_calories :: "int option"
  json_category :: "string option"
  json_spiciness :: "int option"
  json_allergens :: "string list option"
  json_isVegetarian :: "bool option"
  json_isVegan :: "bool option"
  json_servingSize :: "string option"
  json_cookingMethod :: "string option"
  json_region :: "string option"

record naver_item =
  item_title :: "string option"
  item_source :: "string option"
  item_originalUrl :: "string option"
  item_thumb :: "string option"

record pexels_photo =
  photo_alt :: "string option"
  photo_photographer :: "string option"
  photo_src_large :: "string option"

record pixabay_hit =
  hit_tags :: "string option"
  hit_largeImageURL :: "string option"
  hit_webformatURL :: "string option"

record unsplash_image =
  urls_regular :: string
  alt_description :: "string option"
  img_description :: "string option"

record head_response =
  status :: nat
  content_type :: "string option"

subsection \<open>The store\<close>

text \<open>
  The columns of \<open>korean_foods\<close> that an insert supplies (\<open>InsertKoreanFood\<close>); a row
  (\<open>KoreanFood\<close>) adds the serial id. The two timestamps are not read by the pipeline
  and are left out.
\<close>

record insert_korean_food =
  kf_nameKorean :: string
  kf_nameEnglish :: string
  kf_description :: string
  kf_ingredients :: "string list"
  kf_calories :: int
  kf_category :: "string option"
  kf_spiciness :: "int option"
  kf_allergens :: "string list option"
  kf_isVegetarian :: "bool option"
  kf_isVegan :: "bool option"
  kf_servingSize :: "string option"
  kf_cookingMethod :: "string option"
  kf_region :: "string option"
  kf_imageUrl :: "string option"

record korean_food =
  row_id :: nat
  row_data :: insert_korean_food

text \<open>What \<open>getFoodDetailsFromAI\<close> returns: the insert columns and \<open>descriptionEnglish\<close>.\<close>

record ai_food =
  ai_descriptionEnglish :: string
  ai_data :: insert_korean_food

subsection \<open>Results\<close>

record DetectedDish =
  nameKorean :: string
  nameEnglish :: string
  description :: string
  descriptionEnglish :: string
  ingredients :: "string list"
  calories :: int
  imageUrl :: "string option"
  imageAccuracy :: string
  category :: "string option"
  spiciness :: "int option"
  allergens :: "string list option"
  isVegetarian :: "bool option"
  isVegan :: "bool option"
  servingSize :: "string option"
  cookingMethod :: "string option"
  region :: "string option"
  confidence :: real
  source :: string

record token_usage =
  prompt_tokens :: int
  completion_tokens :: int
  total_tokens :: int
  cost_usd :: real
  cost_aud :: real

record ocr_result =
  isKoreanMenu :: bool
  extractedNames :: "string list"
  totalDetected :: "int option"
  tokenUsage :: token_usage

record menu_analysis =
  analysis_isKoreanMenu :: bool
  analysis_dishes :: "DetectedDish list"
  analysis_tokenUsage :: token_usage

datatype accuracy = High | Medium | Low

fun accuracyString :: "accuracy \<Rightarrow> string" where
  "accuracyString High = ''high''"
| "accuracyString Medium = ''medium''"
| "accuracyString Low = ''low''"

datatype provider = Naver | Pexels | Pixabay | Unsplash

record ImageResult =
  url :: "string option"
  provider_of :: provider
  accuracy_of :: accuracy
  title :: "string option"
  found_via :: string

subsection \<open>The outside world\<close>

text \<open>
  Every external call is recorded in a trace. The world answers a call as a function of
  the trace so far, so the same request may be answered differently at different times.
\<close>

datatype request =
    OpenAiOcr string
  | OpenAiDetails string
  | DbFind string
  | DbInsert insert_korean_food
  | NaverGet string
  | PexelsGet string
  | PixabayGet string
  | UnsplashGet string
  | HeadProbe string

record world =
  openaiOcr :: "request list \<Rightarrow> string \<Rightarrow> ocr_json chat_completion option"
  openaiDetails :: "request list \<Rightarrow> string \<Rightarrow> food_json chat_completion option"
  dbError :: "request list \<Rightarrow> request \<Rightarrow> string option"
  naverGet :: "request list \<Rightarrow> string \<Rightarrow> naver_item list option"
  pexelsGet :: "request list \<Rightarrow> string \<Rightarrow> pexels_photo list option"
  pixabayGet :: "request list \<Rightarrow> string \<Rightarrow> pixabay_hit list option"
  unsplashGet :: "request list \<Rightarrow> string \<Rightarrow> unsplash_image list option"
  axiosHead :: "request list \<Rightarrow> string \<Rightarrow> head_response option"
  pexelsApiKey :: "string option"
  pixabayApiKey :: "string option"
  accessKey :: string
  mathRandom :: "request list \<Rightarrow> real"

record state =
  koreanFoods :: "korean_food list"
  nextId :: nat
  trace :: "request list"

section \<open>Image provider adapters (\<open>KoreanImageService\<close>)\<close>

text \<open>The Hangul keywords of the source, as UTF-8 bytes.\<close>

definition ko_food :: string where
  \<comment> \<open>U+C74C U+C2DD\<close>
  "ko_food = [CHR 0xEC, CHR 0x9D, CHR 0x8C, CHR 0xEC, CHR 0x8B, CHR 0x9D]"

definition ko_dish :: string where
  \<comment> \<open>U+C694 U+B9AC\<close>
  "ko_dish = [CHR 0xEC, CHR 0x9A, CHR 0x94, CHR 0xEB, CHR 0xA6, CHR 0xAC]"

definition ko_korea :: string where
  \<comment> \<open>U+D55C U+AD6D\<close>
  "ko_korea = [CHR 0xED, CHR 0x95, CHR 0x9C, CHR 0xEA, CHR 0xB5, CHR 0xAD]"

definition ko_koreanFood :: string where
  \<comment> \<open>U+D55C U+AD6D U+C74C U+C2DD\<close>
  "ko_koreanFood = [CHR 0xED, CHR 0x95, CHR 0x9C, CHR 0xEA, CHR 0xB5, CHR 0xAD, CHR 0xEC, CHR 0x9D, CHR 0x8C, CHR 0xEC, CHR 0x8B, CHR 0x9D]"

definition ko_eatery :: string where
  \<comment> \<open>U+B9DB U+C9D1\<close>
  "ko_eatery = [CHR 0xEB, CHR 0xA7, CHR 0x9B, CHR 0xEC, CHR 0xA7, CHR 0x91]"

definition ko_traditional :: string where
  \<comment> \<open>U+C804 U+D1B5\<close>
  "ko_traditional = [CHR 0xEC, CHR 0xA0, CHR 0x84, CHR 0xED, CHR 0x86, CHR 0xB5]"

definition ko_person :: string where
  \<comment> \<open>U+C0AC U+B78C\<close>
  "ko_person = [CHR 0xEC, CHR 0x82, CHR 0xAC, CHR 0xEB, CHR 0x9E, CHR 0x8C]"

definition ko_building :: string where
  \<comment> \<open>U+AC74 U+BB3C\<close>
  "ko_building = [CHR 0xEA, CHR 0xB1, CHR 0xB4, CHR 0xEB, CHR 0xAC, CHR 0xBC]"

definition ko_landscape :: string where
  \<comment> \<open>U+D48D U+ACBD\<close>
  "ko_landscape = [CHR 0xED, CHR 0x92, CHR 0x8D, CHR 0xEA, CHR 0xB2, CHR 0xBD]"

definition ko_recipe :: string where
  \<comment> \<open>U+B808 U+C2DC U+D53C\<close>
  "ko_recipe = [CHR 0xEB, CHR 0xA0, CHR 0x88, CHR 0xEC, CHR 0x8B, CHR 0x9C, CHR 0xED, CHR 0x94, CHR 0xBC]"

definition ko_making :: string where
  \<comment> \<open>U+B9CC U+B4E4 U+AE30\<close>
  "ko_making = [CHR 0xEB, CHR 0xA7, CHR 0x8C, CHR 0xEB, CHR 0x93, CHR 0xA4, CHR 0xEA, CHR 0xB8, CHR 0xB0]"

definition ko_tasty :: string where
  \<comment> \<open>U+B9DB U+C788 U+B294\<close>
  "ko_tasty = [CHR 0xEB, CHR 0xA7, CHR 0x9B, CHR 0xEC, CHR 0x9E, CHR 0x88, CHR 0xEB, CHR 0x8A, CHR 0x94]"

definition sortByRelevance :: "('a \<Rightarrow> int) \<Rightarrow> 'a list \<Rightarrow> 'a list" where
  \<comment> \<open>\<open>xs.sort((a, b) => b.relevanceScore - a.relevanceScore)\<close>: stable, descending\<close>
  "sortByRelevance score xs = sort_key (\<lambda>x. - score x) xs"

definition formatResult :: "string option \<Rightarrow> accuracy \<Rightarrow> string" where
  \<comment> \<open>the template \<open>${url}|${accuracy}\<close>\<close>
  "formatResult u a = templateString u @ ''|'' @ accuracyString a"

subsection \<open>URL validation\<close>

definition validateImageUrl :: "world \<Rightarrow> request list \<Rightarrow> string option \<Rightarrow> bool \<times> request list" where
  \<comment> \<open>a missing URL makes \<open>axios.head\<close> throw before any request; a failed probe is \<open>false\<close>\<close>
  "validateImageUrl w tr u =
     (case u of
        None \<Rightarrow> (False, tr)
      | Some link \<Rightarrow>
          (case axiosHead w tr link of
             None \<Rightarrow> (False, tr @ [HeadProbe link])
           | Some response \<Rightarrow>
               (status response = 200 \<and> startsWith (orEmpty (content_type response)) ''image/'',
                tr @ [HeadProbe link])))"

subsection \<open>Naver\<close>

definition isBlogUrl :: "string \<Rightarrow> bool" where
  "isBlogUrl u =
     (js_includes u ''blogfiles.naver.net'' \<or> js_includes u ''postfiles.naver.net''
      \<or> js_includes u ''blog.naver.com'')"

definition isBlockedUrl :: "string \<Rightarrow> bool" where
  "isBlockedUrl u =
     (js_includes u ''shopping.phinf.naver.net'' \<or> js_includes u ''shop1.phinf.naver.net''
      \<or> js_includes u ''commerce.'' \<or> js_includes u ''shopping.'')"

definition blockedLink :: "string option \<Rightarrow> bool" where
  \<comment> \<open>\<open>imageUrl?.includes(...)\<close> over the four blocked domains\<close>
  "blockedLink link = (case link of None \<Rightarrow> False | Some u \<Rightarrow> isBlockedUrl u)"

definition blogLink :: "string option \<Rightarrow> bool" where
  \<comment> \<open>\<open>imageUrl?.includes(...)\<close> over the three blog domains\<close>
  "blogLink link = (case link of None \<Rightarrow> False | Some u \<Rightarrow> isBlogUrl u)"

definition itemLink :: "naver_item \<Rightarrow> string option" where
  \<comment> \<open>\<open>item.originalUrl || item.thumb\<close>\<close>
  "itemLink item = js_or (item_originalUrl item) (item_thumb item)"

definition naverScore :: "naver_item \<Rightarrow> int" where
  "naverScore item =
     (let title = lowerOrEmpty (item_title item);
          source = lowerOrEmpty (item_source item);
          imageUrl = orEmpty (itemLink item)
      in (if isBlogUrl imageUrl then 10 else 0)
         + (if js_includes title ko_food \<or> js_includes title ko_dish \<or> js_includes title ko_eatery
            then 3 else 0)
         + (if js_includes title ko_korea \<or> js_includes title ko_traditional then 2 else 0)
         + (if js_includes source ''blog'' \<or> js_includes source ''recipe''
               \<or> js_includes source ''restaurant'' then 2 else 0)
         + (if js_includes imageUrl ''pinimg.com'' then 1 else 0)
         - (if js_includes title ko_person \<or> js_includes title ko_building
               \<or> js_includes title ko_landscape then 2 else 0))"

definition naverAccuracy :: "string option \<Rightarrow> int \<Rightarrow> accuracy" where
  "naverAccuracy link relevanceScore =
     (if blogLink link then High
      else if relevanceScore < 2 then Low
      else if relevanceScore < 4 then Medium
      else High)"

definition naverPick :: "string \<Rightarrow> naver_item list \<Rightarrow> ImageResult option" where
  \<comment> \<open>what one query's items yield; \<open>None\<close> is the loop going on to the next query\<close>
  "naverPick query items =
     (case sortByRelevance naverScore items of
        [] \<Rightarrow> None
      | bestItem # _ \<Rightarrow>
          if naverScore bestItem \<ge> 0 then
            (let imageUrl = itemLink bestItem in
             if blockedLink imageUrl then None
             else Some \<lparr> url = imageUrl, provider_of = Naver,
                         accuracy_of = naverAccuracy imageUrl (naverScore bestItem),
                         title = item_title bestItem,
                         found_via = ''Found via Naver search: '' @ query \<rparr>)
          else None)"

fun searchNaverQueries :: "world \<Rightarrow> request list \<Rightarrow> string list \<Rightarrow> ImageResult option \<times> request list" where
  "searchNaverQueries w tr [] = (None, tr)"
| "searchNaverQueries w tr (query # queries) =
     (case naverGet w tr query of
        None \<Rightarrow> searchNaverQueries w (tr @ [NaverGet query]) queries
      | Some items \<Rightarrow>
          (case naverPick query items of
             Some result \<Rightarrow> (Some result, tr @ [NaverGet query])
           | None \<Rightarrow> searchNaverQueries w (tr @ [NaverGet query]) queries))"

definition naverQueries :: "string \<Rightarrow> string \<Rightarrow> string list" where
  "naverQueries koreanName englishName =
     [koreanName, koreanName @ '' '' @ ko_food, koreanName @ '' '' @ ko_dish,
      ko_korea @ '' '' @ englishName, englishName @ '' '' @ ko_koreanFood]"

definition searchNaver ::
  "world \<Rightarrow> request list \<Rightarrow> string \<Rightarrow> string \<Rightarrow> string option \<Rightarrow> ImageResult option \<times> request list" where
  "searchNaver w tr koreanName englishName customQuery =
     searchNaverQueries w tr
       (if truthy customQuery then [orEmpty customQuery] else naverQueries koreanName englishName)"

definition alternativeQueries :: "string \<Rightarrow> string \<Rightarrow> string list" where
  "alternativeQueries koreanName englishName =
     [koreanName @ '' '' @ ko_recipe, koreanName @ '' '' @ ko_making, ko_tasty @ '' '' @ koreanName,
      ko_traditional @ '' '' @ koreanName, englishName @ '' recipe korean'']"

fun collectAlternatives ::
  "world \<Rightarrow> request list \<Rightarrow> string \<Rightarrow> string \<Rightarrow> string list \<Rightarrow> (string option \<times> accuracy) list \<times> request list" where
  "collectAlternatives w tr koreanName englishName [] = ([], tr)"
| "collectAlternatives w tr koreanName englishName (query # queries) =
     (case searchNaver w tr koreanName englishName (Some query) of
        (result, tr1) \<Rightarrow>
          (case collectAlternatives w tr1 koreanName englishName queries of
             (alternatives, tr2) \<Rightarrow>
               ((case result of None \<Rightarrow> [] | Some r \<Rightarrow> [(url r, accuracy_of r)]) @ alternatives, tr2)))"

definition getAlternativeNaverUrls ::
  "world \<Rightarrow> request list \<Rightarrow> string \<Rightarrow> string \<Rightarrow> (string option \<times> accuracy) list \<times> request list" where
  "getAlternativeNaverUrls w tr koreanName englishName =
     collectAlternatives w tr koreanName englishName
       (take 2 (alternativeQueries koreanName englishName))"

subsection \<open>Pexels\<close>

definition stockAccuracy :: "int \<Rightarrow> accuracy" where
  "stockAccuracy relevanceScore =
     (if relevanceScore \<ge> 5 then High else if relevanceScore < 2 then Low else Medium)"

definition pexelsScore :: "string \<Rightarrow> pexels_photo \<Rightarrow> int" where
  "pexelsScore englishName photo =
     (let alt = lowerOrEmpty (photo_alt photo);
          photographer = lowerOrEmpty (photo_photographer photo)
      in (if js_includes alt ''korean'' \<or> js_includes alt ''korea'' then 3 else 0)
         + (if js_includes alt ''food'' \<or> js_includes alt ''dish'' \<or> js_includes alt ''meal''
            then 2 else 0)
         + (if js_includes alt (toLowerCase englishName) then 4 else 0)
         + (if js_includes photographer ''korean'' \<or> js_includes photographer ''asia''
            then 1 else 0))"

definition pexelsPick :: "string \<Rightarrow> string \<Rightarrow> pexels_photo list \<Rightarrow> ImageResult option" where
  "pexelsPick englishName query photos =
     (case sortByRelevance (pexelsScore englishName) photos of
        [] \<Rightarrow> None
      | bestPhoto # _ \<Rightarrow>
          Some \<lparr> url = photo_src_large bestPhoto, provider_of = Pexels,
                 accuracy_of = stockAccuracy (pexelsScore englishName bestPhoto),
                 title = photo_alt bestPhoto,
                 found_via = ''Found via Pexels: '' @ query \<rparr>)"

fun searchPexelsQueries ::
  "world \<Rightarrow> request list \<Rightarrow> string \<Rightarrow> string list \<Rightarrow> ImageResult option \<times> request list" where
  "searchPexelsQueries w tr englishName [] = (None, tr)"
| "searchPexelsQueries w tr englishName (query # queries) =
     (case pexelsGet w tr query of
        None \<Rightarrow> searchPexelsQueries w (tr @ [PexelsGet query]) englishName queries
      | Some photos \<Rightarrow>
          (case pexelsPick englishName query photos of
             Some result \<Rightarrow> (Some result, tr @ [PexelsGet query])
           | None \<Rightarrow> searchPexelsQueries w (tr @ [PexelsGet query]) englishName queries))"

definition pexelsQueries :: "string \<Rightarrow> string list" where
  "pexelsQueries englishName =
     [''korean '' @ englishName, englishName @ '' korean food'',
      ''traditional korean '' @ englishName, ''korean cuisine'', ''korean food dish'']"

definition searchPexels ::
  "world \<Rightarrow> request list \<Rightarrow> string \<Rightarrow> string \<Rightarrow> ImageResult option \<times> request list" where
  "searchPexels w tr koreanName englishName =
     (if \<not> truthy (pexelsApiKey w) then (None, tr)
      else searchPexelsQueries w tr englishName (pexelsQueries englishName))"

subsection \<open>Pixabay\<close>

definition pixabayScore :: "string \<Rightarrow> pixabay_hit \<Rightarrow> int" where
  "pixabayScore englishName hit =
     (let tags = lowerOrEmpty (hit_tags hit)
      in (if js_includes tags ''korean'' \<or> js_includes tags ''korea'' then 3 else 0)
         + (if js_includes tags ''food'' \<or> js_includes tags ''dish'' \<or> js_includes tags ''cuisine''
            then 2 else 0)
         + (if js_includes tags (toLowerCase englishName) then 4 else 0)
         + (if js_includes tags ''traditional'' \<or> js_includes tags ''authentic'' then 1 else 0))"

definition pixabayPick :: "string \<Rightarrow> string \<Rightarrow> pixabay_hit list \<Rightarrow> ImageResult option" where
  "pixabayPick englishName query hits =
     (case sortByRelevance (pixabayScore englishName) hits of
        [] \<Rightarrow> None
      | bestHit # _ \<Rightarrow>
          Some \<lparr> url = js_or (hit_largeImageURL bestHit) (hit_webformatURL bestHit),
                 provider_of = Pixabay,
                 accuracy_of = stockAccuracy (pixabayScore englishName bestHit),
                 title = hit_tags bestHit,
                 found_via = ''Found via Pixabay: '' @ query \<rparr>)"

fun searchPixabayQueries ::
  "world \<Rightarrow> request list \<Rightarrow> string \<Rightarrow> string list \<Rightarrow> ImageResult option \<times> request list" where
  "searchPixabayQueries w tr englishName [] = (None, tr)"
| "searchPixabayQueries w tr englishName (query # queries) =
     (case pixabayGet w tr query of
        None \<Rightarrow> searchPixabayQueries w (tr @ [PixabayGet query]) englishName queries
      | Some hits \<Rightarrow>
          (case pixabayPick englishName query hits of
             Some result \<Rightarrow> (Some result, tr @ [PixabayGet query])
           | None \<Rightarrow> searchPixabayQueries w (tr @ [PixabayGet query]) englishName queries))"

definition plusForSpaces :: "string \<Rightarrow> string" where
  \<comment> \<open>\<open>s.replace(/ /g, '+')\<close>\<close>
  "plusForSpaces s = map (\<lambda>c. if c = CHR '' '' then CHR ''+'' else c) s"

definition pixabayQueries :: "string \<Rightarrow> string list" where
  "pixabayQueries englishName =
     [''korean+'' @ plusForSpaces englishName, ''korean+food+'' @ plusForSpaces englishName,
      ''korean+cuisine'', ''korean+traditional+food'']"

definition searchPixabay ::
  "world \<Rightarrow> request list \<Rightarrow> string \<Rightarrow> string \<Rightarrow> ImageResult option \<times> request list" where
  "searchPixabay w tr koreanName englishName =
     (if \<not> truthy (pixabayApiKey w) then (None, tr)
      else searchPixabayQueries w tr englishName (pixabayQueries englishName))"

subsection \<open>The image resolution waterfall (\<open>searchKoreanFoodImage\<close>)\<close>

text \<open>
  The source is one function with an early return after each provider. It is split at its
  numbered steps: each stage below is the rest of the function from that step on, given the
  list \<open>attemptedUrls\<close> built so far.
\<close>

fun validateAlternatives ::
  "world \<Rightarrow> request list \<Rightarrow> (string option \<times> accuracy) list \<Rightarrow> string option \<times> request list" where
  "validateAlternatives w tr [] = (None, tr)"
| "validateAlternatives w tr ((altUrl, altAccuracy) # rest) =
     (case validateImageUrl w tr altUrl of
        (ok, tr1) \<Rightarrow>
          if ok then (Some (formatResult altUrl altAccuracy), tr1)
          else validateAlternatives w tr1 rest)"

fun waterfallAlternatives ::
  "world \<Rightarrow> request list \<Rightarrow> string \<Rightarrow> string \<Rightarrow> (string option \<times> accuracy \<times> provider) list
     \<Rightarrow> string option \<times> request list" where
  \<comment> \<open>steps 4 and 5\<close>
  "waterfallAlternatives w tr koreanName englishName [] = (None, tr)"
| "waterfallAlternatives w tr koreanName englishName ((attemptUrl, attemptAccuracy, attemptSource) # rest) =
     (if attemptSource = Naver then
        (case getAlternativeNaverUrls w tr koreanName englishName of
           (alternativeUrls, tr1) \<Rightarrow>
             (case validateAlternatives w tr1 alternativeUrls of
                (Some found, tr2) \<Rightarrow> (Some found, tr2)
              | (None, tr2) \<Rightarrow> waterfallAlternatives w tr2 koreanName englishName rest))
      else waterfallAlternatives w tr koreanName englishName rest)"

definition waterfallFromPixabay ::
  "world \<Rightarrow> request list \<Rightarrow> string \<Rightarrow> string \<Rightarrow> (string option \<times> accuracy \<times> provider) list
     \<Rightarrow> string option \<times> request list" where
  \<comment> \<open>step 3 onwards\<close>
  "waterfallFromPixabay w tr koreanName englishName attemptedUrls =
     (case searchPixabay w tr koreanName englishName of
        (None, tr1) \<Rightarrow> waterfallAlternatives w tr1 koreanName englishName attemptedUrls
      | (Some pixabayResult, tr1) \<Rightarrow>
          (case validateImageUrl w tr1 (url pixabayResult) of
             (ok, tr2) \<Rightarrow>
               if ok then (Some (formatResult (url pixabayResult) (accuracy_of pixabayResult)), tr2)
               else waterfallAlternatives w tr2 koreanName englishName
                      (attemptedUrls @ [(url pixabayResult, accuracy_of pixabayResult, Pixabay)])))"

definition waterfallFromPexels ::
  "world \<Rightarrow> request list \<Rightarrow> string \<Rightarrow> string \<Rightarrow> (string option \<times> accuracy \<times> provider) list
     \<Rightarrow> string option \<times> request list" where
  \<comment> \<open>step 2 onwards\<close>
  "waterfallFromPexels w tr koreanName englishName attemptedUrls =
     (case searchPexels w tr koreanName englishName of
        (None, tr1) \<Rightarrow> waterfallFromPixabay w tr1 koreanName englishName attemptedUrls
      | (Some pexelsResult, tr1) \<Rightarrow>
          (case validateImageUrl w tr1 (url pexelsResult) of
             (ok, tr2) \<Rightarrow>
               if ok then (Some (formatResult (url pexelsResult) (accuracy_of pexelsResult)), tr2)
               else waterfallFromPixabay w tr2 koreanName englishName
                      (attemptedUrls @ [(url pexelsResult, accuracy_of pexelsResult, Pexels)])))"

definition searchKoreanFoodImage ::
  "world \<Rightarrow> request list \<Rightarrow> string \<Rightarrow> string \<Rightarrow> string option \<times> request list" where
  "searchKoreanFoodImage w tr koreanName englishName =
     (case searchNaver w tr koreanName englishName None of
        (None, tr1) \<Rightarrow> waterfallFromPexels w tr1 koreanName englishName []
      | (Some naverResult, tr1) \<Rightarrow>
          (case validateImageUrl w tr1 (url naverResult) of
             (ok, tr2) \<Rightarrow>
               if ok then (Some (formatResult (url naverResult) (accuracy_of naverResult)), tr2)
               else waterfallFromPexels w tr2 koreanName englishName
                      [(url naverResult, accuracy_of naverResult, Naver)]))"

section \<open>The stock photo service (\<open>UnsplashService\<close>)\<close>

definition getSearchTerms :: "string \<Rightarrow> string list" where
  "getSearchTerms dishName =
     (let name = toLowerCase dishName in
      if js_includes name ''squid'' \<or> js_includes name ''octopus''
        then [''korean squid'', ''korean seafood'']
      else if js_includes name ''shrimp'' then [''korean shrimp'', ''korean prawns'']
      else if js_includes name ''crab'' then [''korean crab'', ''soy marinated crab'']
      else if js_includes name ''chicken'' then [''korean chicken'', ''chicken stew'']
      else if js_includes name ''beef'' then [''korean beef'', ''bulgogi'']
      else if js_includes name ''pork'' then [''korean pork'']
      else if js_includes name ''fish'' then [''korean fish'']
      else if js_includes name ''tofu'' then [''korean tofu'']
      else if js_includes name ''stew'' \<or> js_includes name ''soup''
        then [''korean stew'', ''korean soup'']
      else if js_includes name ''rice'' \<or> js_includes name ''bibimbap''
        then [''korean rice'', ''bibimbap'']
      else if js_includes name ''noodle'' then [''korean noodles'']
      else if js_includes name ''set'' \<or> js_includes name ''meal''
        then [''korean set meal'', ''korean banchan'']
      else if js_includes name ''bbq'' \<or> js_includes name ''grilled''
        then [''korean bbq'', ''korean grill'']
      else [''korean food'', ''korean cuisine''])"

definition termQueries :: "string \<Rightarrow> string list" where
  "termQueries searchTerm = [searchTerm @ '' dish'', searchTerm @ '' restaurant'', ''traditional '' @ searchTerm]"

definition searchQueries :: "string \<Rightarrow> string list" where
  \<comment> \<open>\<open>searchTerms.flatMap(...)\<close>\<close>
  "searchQueries englishFoodName = concat (map termQueries (getSearchTerms englishFoodName))"

definition unsplashScore :: "string \<Rightarrow> unsplash_image \<Rightarrow> int" where
  "unsplashScore searchQuery img =
     (let alt = lowerOrEmpty (alt_description img);
          desc = lowerOrEmpty (img_description img);
          searchLower = toLowerCase searchQuery
      in (if js_includes alt ''food'' \<or> js_includes desc ''food'' then 3 else 0)
         + (if js_includes alt ''korean'' \<or> js_includes desc ''korean'' then 3 else 0)
         + (if js_includes alt ''dish'' \<or> js_includes alt ''meal'' \<or> js_includes alt ''cuisine''
            then 2 else 0)
         + (if js_includes alt ''restaurant'' \<or> js_includes alt ''cooking'' then 2 else 0)
         + (if js_includes searchLower ''shrimp''
               \<and> (js_includes alt ''shrimp'' \<or> js_includes alt ''prawn'') then 4 else 0)
         + (if js_includes searchLower ''crab'' \<and> js_includes alt ''crab'' then 4 else 0)
         + (if js_includes searchLower ''squid''
               \<and> (js_includes alt ''squid'' \<or> js_includes alt ''octopus'') then 4 else 0)
         + (if js_includes searchLower ''chicken'' \<and> js_includes alt ''chicken'' then 4 else 0)
         + (if js_includes searchLower ''beef'' \<and> js_includes alt ''beef'' then 4 else 0)
         - (if js_includes alt ''person'' \<or> js_includes alt ''people'' \<or> js_includes alt ''man''
               \<or> js_includes alt ''woman'' then 2 else 0)
         - (if js_includes alt ''building'' \<or> js_includes alt ''street'' \<or> js_includes alt ''city''
            then 2 else 0)
         - (if js_includes alt ''nature'' \<or> js_includes alt ''landscape'' \<or> js_includes alt ''sky''
            then 2 else 0))"

definition unsplashAccuracy :: "int \<Rightarrow> string" where
  "unsplashAccuracy relevanceScore =
     (if relevanceScore < 2 then ''low'' else if relevanceScore < 4 then ''medium'' else ''high'')"

fun searchUnsplashQueries :: "world \<Rightarrow> request list \<Rightarrow> string list \<Rightarrow> string option \<times> request list" where
  \<comment> \<open>a failed request leaves the loop through the enclosing \<open>catch\<close>, which returns \<open>null\<close>\<close>
  "searchUnsplashQueries w tr [] = (None, tr)"
| "searchUnsplashQueries w tr (searchQuery # queries) =
     (case unsplashGet w tr searchQuery of
        None \<Rightarrow> (None, tr @ [UnsplashGet searchQuery])
      | Some images \<Rightarrow>
          (case sortByRelevance (unsplashScore searchQuery) images of
             [] \<Rightarrow> searchUnsplashQueries w (tr @ [UnsplashGet searchQuery]) queries
           | bestImage # _ \<Rightarrow>
               (Some (urls_regular bestImage @ ''|''
                        @ unsplashAccuracy (unsplashScore searchQuery bestImage)),
                tr @ [UnsplashGet searchQuery])))"

definition searchKoreanFood ::
  "world \<Rightarrow> request list \<Rightarrow> string \<Rightarrow> string option \<Rightarrow> string option \<times> request list" where
  "searchKoreanFood w tr koreanFoodName englishFoodName =
     (case searchKoreanFoodImage w tr koreanFoodName
             (if truthy englishFoodName then orEmpty englishFoodName else koreanFoodName) of
        (koreanResult, tr1) \<Rightarrow>
          if truthy koreanResult then (koreanResult, tr1)
          else if accessKey w = [] then (None, tr1)
          else if \<not> truthy englishFoodName then (None, tr1)
          else searchUnsplashQueries w tr1 (searchQueries (orEmpty englishFoodName)))"



section \<open>The store (\<open>DatabaseStorage\<close>)\<close>

definition findKoreanFood :: "world \<Rightarrow> state \<Rightarrow> string \<Rightarrow> (error + korean_food option) \<times> state" where
  \<comment> \<open>the first row whose \<open>name_korean\<close> equals the name; a database failure throws\<close>
  "findKoreanFood w st name =
     (case dbError w (trace st) (DbFind name) of
        Some msg \<Rightarrow> (Inl (Error msg), st\<lparr>trace := trace st @ [DbFind name]\<rparr>)
      | None \<Rightarrow>
          (Inr (find (\<lambda>row. kf_nameKorean (row_data row) = name) (koreanFoods st)),
           st\<lparr>trace := trace st @ [DbFind name]\<rparr>))"

definition columnDefaults :: "insert_korean_food \<Rightarrow> insert_korean_food" where
  \<comment> \<open>the \<open>.default(...)\<close> of the columns an insert leaves out\<close>
  "columnDefaults food =
     food\<lparr> kf_spiciness := (case kf_spiciness food of None \<Rightarrow> Some 0 | Some n \<Rightarrow> Some n),
            kf_allergens := (case kf_allergens food of None \<Rightarrow> Some [] | Some xs \<Rightarrow> Some xs),
            kf_isVegetarian := (case kf_isVegetarian food of None \<Rightarrow> Some False | Some b \<Rightarrow> Some b),
            kf_isVegan := (case kf_isVegan food of None \<Rightarrow> Some False | Some b \<Rightarrow> Some b) \<rparr>"

definition createKoreanFood :: "world \<Rightarrow> state \<Rightarrow> insert_korean_food \<Rightarrow> (error + korean_food) \<times> state" where
  "createKoreanFood w st food =
     (case dbError w (trace st) (DbInsert food) of
        Some msg \<Rightarrow> (Inl (Error msg), st\<lparr>trace := trace st @ [DbInsert food]\<rparr>)
      | None \<Rightarrow>
          (let created = \<lparr> row_id = nextId st, row_data = columnDefaults food \<rparr> in
           (Inr created,
            st\<lparr> koreanFoods := koreanFoods st @ [created], nextId := Suc (nextId st),
                trace := trace st @ [DbInsert food] \<rparr>)))"

section \<open>The menu analysis pipeline (\<open>services/openai.ts\<close>)\<close>

definition promptTokenCost :: real where
  "promptTokenCost = 0.0025 / 1000"

definition completionTokenCost :: real where
  "completionTokenCost = 0.01 / 1000"

definition extractKoreanFoodNames :: "world \<Rightarrow> state \<Rightarrow> string \<Rightarrow> (error + ocr_result) \<times> state" where
  \<comment> \<open>whatever is thrown inside is caught and replaced by the one error of the \<open>catch\<close>\<close>
  "extractKoreanFoodNames w st base64Image =
     (let st1 = st\<lparr>trace := trace st @ [OpenAiOcr base64Image]\<rparr>;
          failed = Inl (Error ''Failed to extract food names from menu image'')
      in case openaiOcr w (trace st) base64Image of
           None \<Rightarrow> (failed, st1)
         | Some response \<Rightarrow>
             (case choices response of
                [] \<Rightarrow> (failed, st1)
              | content # _ \<Rightarrow>
                  (case content of
                     NoContent \<Rightarrow> (failed, st1)
                   | Unparseable \<Rightarrow> (failed, st1)
                   | Parsed result \<Rightarrow>
                       (case usage response of
                          None \<Rightarrow> (failed, st1)
                        | Some tokens \<Rightarrow>
                            (let totalCostUSD =
                                   real_of_int (api_prompt_tokens tokens) * promptTokenCost
                                   + real_of_int (api_completion_tokens tokens) * completionTokenCost;
                                 totalCostAUD = totalCostUSD * 1.5
                             in (Inr \<lparr> isKoreanMenu = json_isKoreanMenu result,
                                       extractedNames =
                                         (case json_extractedNames result of
                                            None \<Rightarrow> [] | Some names \<Rightarrow> names),
                                       totalDetected = json_totalDetected result,
                                       tokenUsage =
                                         \<lparr> prompt_tokens = api_prompt_tokens tokens,
                                           completion_tokens = api_completion_tokens tokens,
                                           total_tokens = api_total_tokens tokens,
                                           cost_usd = totalCostUSD,
                                           cost_aud = totalCostAUD \<rparr> \<rparr>,
                                 st1))))))"

definition getFoodDetailsFromAI :: "world \<Rightarrow> state \<Rightarrow> string \<Rightarrow> (error + ai_food) \<times> state" where
  "getFoodDetailsFromAI w st koreanName =
     (let st1 = st\<lparr>trace := trace st @ [OpenAiDetails koreanName]\<rparr>;
          failed = Inl (Error ''Failed to get food details from AI'')
      in case openaiDetails w (trace st) koreanName of
           None \<Rightarrow> (failed, st1)
         | Some response \<Rightarrow>
             (case choices response of
                [] \<Rightarrow> (failed, st1)
              | content # _ \<Rightarrow>
                  (case content of
                     NoContent \<Rightarrow> (failed, st1)
                   | Unparseable \<Rightarrow> (failed, st1)
                   | Parsed foodData \<Rightarrow>
                       (Inr \<lparr> ai_descriptionEnglish =
                                 (if truthy (json_descriptionEnglish foodData)
                                  then orEmpty (json_descriptionEnglish foodData)
                                  else ''Traditional Korean '' @ json_nameEnglish foodData),
                               ai_data =
                                 \<lparr> kf_nameKorean = json_nameKorean foodData,
                                   kf_nameEnglish = json_nameEnglish foodData,
                                   kf_description = json_description foodData,
                                   kf_ingredients =
                                     (case json_ingredients foodData of None \<Rightarrow> [] | Some xs \<Rightarrow> xs),
                                   kf_calories =
                                     (case json_calories foodData of None \<Rightarrow> 0 | Some c \<Rightarrow> c),
                                   kf_category = json_category foodData,
                                   kf_spiciness =
                                     Some (case json_spiciness foodData of None \<Rightarrow> 0 | Some n \<Rightarrow> n),
                                   kf_allergens =
                                     Some (case json_allergens foodData of None \<Rightarrow> [] | Some xs \<Rightarrow> xs),
                                   kf_isVegetarian =
                                     Some (case json_isVegetarian foodData of None \<Rightarrow> False | Some b \<Rightarrow> b),
                                   kf_isVegan =
                                     Some (case json_isVegan foodData of None \<Rightarrow> False | Some b \<Rightarrow> b),
                                   kf_servingSize = json_servingSize foodData,
                                   kf_cookingMethod = json_cookingMethod foodData,
                                   kf_region = json_region foodData,
                                   kf_imageUrl = None \<rparr> \<rparr>,
                        st1))))"

definition parseImageResult :: "string option \<Rightarrow> string option \<times> string" where
  \<comment> \<open>\<open>[url, accuracy] = imageResult.split('|')\<close> with the defaults \<open>null\<close> and \<open>'high'\<close>\<close>
  "parseImageResult imageResult =
     (if truthy imageResult then
        (case splitOn CHR ''|'' (orEmpty imageResult) of
           [] \<Rightarrow> (None, ''high'')
         | [link] \<Rightarrow> (Some link, ''high'')
         | link # suffix # _ \<Rightarrow> (Some link, if suffix \<noteq> [] then suffix else ''high''))
      else (None, ''high''))"

definition databaseDish :: "korean_food \<Rightarrow> string option \<Rightarrow> DetectedDish" where
  \<comment> \<open>the dish pushed in Step 4, from the stored row and the image search result\<close>
  "databaseDish foodData imageResult =
     \<lparr> nameKorean = kf_nameKorean (row_data foodData),
       nameEnglish = kf_nameEnglish (row_data foodData),
       description = kf_description (row_data foodData),
       descriptionEnglish = ''Traditional Korean '' @ kf_nameEnglish (row_data foodData),
       ingredients = kf_ingredients (row_data foodData),
       calories = kf_calories (row_data foodData),
       imageUrl = fst (parseImageResult imageResult),
       imageAccuracy = snd (parseImageResult imageResult),
       category = kf_category (row_data foodData),
       spiciness = kf_spiciness (row_data foodData),
       allergens = kf_allergens (row_data foodData),
       isVegetarian = kf_isVegetarian (row_data foodData),
       isVegan = kf_isVegan (row_data foodData),
       servingSize = kf_servingSize (row_data foodData),
       cookingMethod = kf_cookingMethod (row_data foodData),
       region = kf_region (row_data foodData),
       confidence = 1.0,
       source = ''database'' \<rparr>"

definition aiDish :: "ai_food \<Rightarrow> korean_food \<Rightarrow> string option \<Rightarrow> DetectedDish" where
  \<comment> \<open>the dish pushed in Step 5, from the model's answer, the saved row and the image search result\<close>
  "aiDish aiData savedFood imageResult =
     \<lparr> nameKorean = kf_nameKorean (row_data savedFood),
       nameEnglish = kf_nameEnglish (row_data savedFood),
       description = kf_description (row_data savedFood),
       descriptionEnglish =
         (if ai_descriptionEnglish aiData \<noteq> [] then ai_descriptionEnglish aiData
          else ''Traditional Korean '' @ kf_nameEnglish (row_data savedFood)),
       ingredients = kf_ingredients (row_data savedFood),
       calories = kf_calories (row_data savedFood),
       imageUrl = fst (parseImageResult imageResult),
       imageAccuracy = snd (parseImageResult imageResult),
       category = kf_category (row_data savedFood),
       spiciness = kf_spiciness (row_data savedFood),
       allergens = kf_allergens (row_data savedFood),
       isVegetarian = kf_isVegetarian (row_data savedFood),
       isVegan = kf_isVegan (row_data savedFood),
       servingSize = kf_servingSize (row_data savedFood),
       cookingMethod = kf_cookingMethod (row_data savedFood),
       region = kf_region (row_data savedFood),
       confidence = 0.8,
       source = ''ai'' \<rparr>"

definition resolveFromDatabase ::
  "world \<Rightarrow> state \<Rightarrow> string \<Rightarrow> korean_food \<Rightarrow> DetectedDish \<times> state" where
  \<comment> \<open>Step 4: the name was found in the store\<close>
  "resolveFromDatabase w st koreanName foodData =
     (case searchKoreanFood w (trace st) koreanName (Some (kf_nameEnglish (row_data foodData))) of
        (imageResult, tr1) \<Rightarrow> (databaseDish foodData imageResult, st\<lparr>trace := tr1\<rparr>))"

definition resolveFromAI :: "world \<Rightarrow> state \<Rightarrow> string \<Rightarrow> (error + DetectedDish) \<times> state" where
  \<comment> \<open>Step 5: the name was not found; ask the model, search the image, save, answer\<close>
  "resolveFromAI w st koreanName =
     (case getFoodDetailsFromAI w st koreanName of
        (Inl e, st1) \<Rightarrow> (Inl e, st1)
      | (Inr aiData, st1) \<Rightarrow>
          (case searchKoreanFood w (trace st1) koreanName (Some (kf_nameEnglish (ai_data aiData))) of
             (imageResult, tr2) \<Rightarrow>
               (case createKoreanFood w (st1\<lparr>trace := tr2\<rparr>)
                       ((ai_data aiData)\<lparr>kf_imageUrl := fst (parseImageResult imageResult)\<rparr>) of
                  (Inl e, st3) \<Rightarrow> (Inl e, st3)
                | (Inr savedFood, st3) \<Rightarrow> (Inr (aiDish aiData savedFood imageResult), st3))))"

definition addAiEstimate :: "token_usage \<Rightarrow> token_usage" where
  "addAiEstimate totalTokenUsage =
     totalTokenUsage\<lparr> prompt_tokens := prompt_tokens totalTokenUsage + 200,
                      completion_tokens := completion_tokens totalTokenUsage + 400,
                      total_tokens := total_tokens totalTokenUsage + 600,
                      cost_usd := cost_usd totalTokenUsage + 0.004,
                      cost_aud := cost_aud totalTokenUsage + 0.006 \<rparr>"

definition resolveName ::
  "world \<Rightarrow> string \<Rightarrow> DetectedDish list \<Rightarrow> token_usage \<Rightarrow> state
     \<Rightarrow> (error + DetectedDish list \<times> token_usage) \<times> state" where
  \<comment> \<open>the \<open>try\<close> block of the loop: \<open>Inl\<close> is a throw, which leaves \<open>dishes\<close> and the usage as they were\<close>
  "resolveName w koreanName dishes totalTokenUsage st =
     (case findKoreanFood w st koreanName of
        (Inl e, st1) \<Rightarrow> (Inl e, st1)
      | (Inr (Some foodData), st1) \<Rightarrow>
          (case resolveFromDatabase w st1 koreanName foodData of
             (dish, st2) \<Rightarrow> (Inr (dishes @ [dish], totalTokenUsage), st2))
      | (Inr None, st1) \<Rightarrow>
          (case resolveFromAI w st1 koreanName of
             (Inl e, st2) \<Rightarrow> (Inl e, st2)
           | (Inr dish, st2) \<Rightarrow> (Inr (dishes @ [dish], addAiEstimate totalTokenUsage), st2)))"

fun resolveAll ::
  "world \<Rightarrow> string list \<Rightarrow> DetectedDish list \<Rightarrow> token_usage \<Rightarrow> state
     \<Rightarrow> (DetectedDish list \<times> token_usage) \<times> state" where
  \<comment> \<open>the \<open>for\<close> loop; its \<open>catch\<close> logs the error and goes on to the next name\<close>
  "resolveAll w [] dishes totalTokenUsage st = ((dishes, totalTokenUsage), st)"
| "resolveAll w (koreanName # names) dishes totalTokenUsage st =
     (case resolveName w koreanName dishes totalTokenUsage st of
        (Inl e, st1) \<Rightarrow> resolveAll w names dishes totalTokenUsage st1
      | (Inr (dishes1, usage1), st1) \<Rightarrow> resolveAll w names dishes1 usage1 st1)"

definition foodLimitMessage :: "int \<Rightarrow> string" where
  "foodLimitMessage n =
     ''FOOD_LIMIT_ERROR: Too many menu items detected ('' @ showInt n
       @ '' items found). Please upload a photo with 3 or fewer menu items for analysis.''"

definition rethrow :: "error \<Rightarrow> error" where
  \<comment> \<open>the outer \<open>catch\<close>\<close>
  "rethrow e =
     (if js_includes (message e) ''FOOD_LIMIT_ERROR:'' then e else Error ''Failed to analyze menu'')"

definition foodLimitError :: "int option \<Rightarrow> error option" where
  \<comment> \<open>\<open>if (ocrResult.totalDetected && ocrResult.totalDetected > 3) throw new Error(...)\<close>\<close>
  "foodLimitError detected =
     (case detected of
        None \<Rightarrow> None
      | Some n \<Rightarrow> if n \<noteq> 0 \<and> n > 3 then Some (Error (foodLimitMessage n)) else None)"

definition analyzeKoreanMenu :: "world \<Rightarrow> state \<Rightarrow> string \<Rightarrow> (error + menu_analysis) \<times> state" where
  "analyzeKoreanMenu w st base64Image =
     (case extractKoreanFoodNames w st base64Image of
        (Inl e, st1) \<Rightarrow> (Inl (rethrow e), st1)
      | (Inr ocrResult, st1) \<Rightarrow>
          (case foodLimitError (totalDetected ocrResult) of
             Some e \<Rightarrow> (Inl (rethrow e), st1)
           | None \<Rightarrow>
               if \<not> isKoreanMenu ocrResult
               then (Inr \<lparr> analysis_isKoreanMenu = False, analysis_dishes = [],
                           analysis_tokenUsage = tokenUsage ocrResult \<rparr>, st1)
               else
                 (case resolveAll w (extractedNames ocrResult) [] (tokenUsage ocrResult) st1 of
                    ((dishes, totalTokenUsage), st2) \<Rightarrow>
                      (Inr \<lparr> analysis_isKoreanMenu = True, analysis_dishes = dishes,
                              analysis_tokenUsage = totalTokenUsage \<rparr>, st2))))"

section \<open>Notions used to state the properties\<close>

fun countResolved :: "world \<Rightarrow> string list \<Rightarrow> DetectedDish list \<Rightarrow> token_usage \<Rightarrow> state \<Rightarrow> nat" where
  \<comment> \<open>how many names of the batch get through their \<open>try\<close> block without a throw, in the run from \<open>st\<close>\<close>
  "countResolved w [] dishes totalTokenUsage st = 0"
| "countResolved w (koreanName # names) dishes totalTokenUsage st =
     (case resolveName w koreanName dishes totalTokenUsage st of
        (Inl e, st1) \<Rightarrow> countResolved w names dishes totalTokenUsage st1
      | (Inr (dishes1, usage1), st1) \<Rightarrow> Suc (countResolved w names dishes1 usage1 st1))"

definition accuracySuffix :: "string \<Rightarrow> string option" where
  \<comment> \<open>the text between the first \<open>|\<close> of a result string and the next \<open>|\<close> or the end, if there is a \<open>|\<close>\<close>
  "accuracySuffix s =
     (if CHR ''|'' \<in> set s
      then Some (takeWhile (\<lambda>c. c \<noteq> CHR ''|'') (tl (dropWhile (\<lambda>c. c \<noteq> CHR ''|'') s)))
      else None)"

definition lacksAccuracySuffix :: "string option \<Rightarrow> bool" where
  \<comment> \<open>no image result, or a result string with no \<open>|\<close> or with nothing after it\<close>
  "lacksAccuracySuffix imageResult =
     (case imageResult of
        None \<Rightarrow> True
      | Some s \<Rightarrow> accuracySuffix s = None \<or> accuracySuffix s = Some [])"

section \<open>Concrete scenarios\<close>

definition quietWorld :: world where
  \<comment> \<open>every provider is down or unconfigured; the database works\<close>
  "quietWorld =
     \<lparr> openaiOcr = (\<lambda>_ _. None), openaiDetails = (\<lambda>_ _. None), dbError = (\<lambda>_ _. None),
       naverGet = (\<lambda>_ _. None), pexelsGet = (\<lambda>_ _. None), pixabayGet = (\<lambda>_ _. None),
       unsplashGet = (\<lambda>_ _. None), axiosHead = (\<lambda>_ _. None),
       pexelsApiKey = None, pixabayApiKey = None, accessKey = [], mathRandom = (\<lambda>_. 0) \<rparr>"

definition ocrAnswer :: "string list option \<Rightarrow> int option \<Rightarrow> ocr_json chat_completion" where
  "ocrAnswer names detected =
     \<lparr> choices = [Parsed \<lparr> json_isKoreanMenu = True, json_extractedNames = names,
                            json_totalDetected = detected \<rparr>],
       usage = Some \<lparr> api_prompt_tokens = 1000, api_completion_tokens = 500,
                      api_total_tokens = 1500 \<rparr> \<rparr>"

definition menuWorld :: "string list option \<Rightarrow> int option \<Rightarrow> world" where
  \<comment> \<open>the vision model reads the given names off the menu\<close>
  "menuWorld names detected = quietWorld\<lparr> openaiOcr := (\<lambda>_ _. Some (ocrAnswer names detected)) \<rparr>"

definition storedFood :: "nat \<Rightarrow> string \<Rightarrow> string \<Rightarrow> int \<Rightarrow> korean_food" where
  "storedFood n korean english kcal =
     \<lparr> row_id = n,
       row_data =
         \<lparr> kf_nameKorean = korean, kf_nameEnglish = english,
           kf_description = ''A Korean dish'', kf_ingredients = [''rice''], kf_calories = kcal,
           kf_category = Some ''Main Dish'', kf_spiciness = Some 2, kf_allergens = Some [],
           kf_isVegetarian = Some False, kf_isVegan = Some False, kf_servingSize = None,
           kf_cookingMethod = None, kf_region = None, kf_imageUrl = None \<rparr> \<rparr>"

definition bibimbap :: string where
  \<comment> \<open>U+BE44 U+BE54 U+BC25\<close>
  "bibimbap = [CHR 0xEB, CHR 0xB9, CHR 0x84, CHR 0xEB, CHR 0xB9, CHR 0x94, CHR 0xEB, CHR 0xB0, CHR 0xA5]"

definition hotteok :: string where
  \<comment> \<open>U+D638 U+B5A1\<close>
  "hotteok = [CHR 0xED, CHR 0x98, CHR 0xB8, CHR 0xEB, CHR 0x96, CHR 0xA1]"

definition emptyStore :: state where
  "emptyStore = \<lparr> koreanFoods = [], nextId = 1, trace = [] \<rparr>"

definition seededStore :: state where
  "seededStore = \<lparr> koreanFoods = [storedFood 1 bibimbap ''Bibimbap'' 420], nextId = 2, trace = [] \<rparr>"

definition hotteokJson :: food_json where
  "hotteokJson =
     \<lparr> json_nameKorean = hotteok, json_nameEnglish = ''Hotteok'',
       json_description = ''Sweet filled pancake'', json_descriptionEnglish = None,
       json_ingredients = Some [''flour'', ''sugar''], json_calories = Some 230,
       json_category = Some ''Dessert'', json_spiciness = None, json_allergens = Some [''gluten''],
       json_isVegetarian = Some True, json_isVegan = None, json_servingSize = None,
       json_cookingMethod = Some ''Pan-fried'', json_region = Some ''Nationwide'' \<rparr>"

definition aiWorld :: world where
  \<comment> \<open>the text model answers every details request with the Hotteok record\<close>
  "aiWorld = quietWorld\<lparr> openaiDetails := (\<lambda>_ _. Some \<lparr> choices = [Parsed hotteokJson], usage = None \<rparr>) \<rparr>"

definition zeroUsage :: token_usage where
  "zeroUsage = \<lparr> prompt_tokens = 0, completion_tokens = 0, total_tokens = 0, cost_usd = 0, cost_aud = 0 \<rparr>"

definition hotteokDetails :: ai_food where
  \<comment> \<open>what \<open>getFoodDetailsFromAI\<close> makes of \<open>hotteokJson\<close>\<close>
  "hotteokDetails =
     \<lparr> ai_descriptionEnglish = ''Traditional Korean Hotteok'',
       ai_data =
         \<lparr> kf_nameKorean = hotteok, kf_nameEnglish = ''Hotteok'',
           kf_description = ''Sweet filled pancake'', kf_ingredients = [''flour'', ''sugar''],
           kf_calories = 230, kf_category = Some ''Dessert'', kf_spiciness = Some 0,
           kf_allergens = Some [''gluten''], kf_isVegetarian = Some True, kf_isVegan = Some False,
           kf_servingSize = None, kf_cookingMethod = Some ''Pan-fried'',
           kf_region = Some ''Nationwide'', kf_imageUrl = None \<rparr> \<rparr>"

definition fourNames :: "string list" where
  "fourNames = [''gimbap'', ''mandu'', ''japchae'', ''galbi'']"

definition fourStore :: state where
  "fourStore =
     \<lparr> koreanFoods = [storedFood 1 ''gimbap'' ''Gimbap'' 300, storedFood 2 ''mandu'' ''Mandu'' 250,
                       storedFood 3 ''japchae'' ''Japchae'' 290, storedFood 4 ''galbi'' ''Galbi'' 450],
       nextId = 5, trace = [] \<rparr>"

definition sourcedItem :: naver_item where
  \<comment> \<open>a plain image whose source mentions a blog: score 2\<close>
  "sourcedItem = \<lparr> item_title = None, item_source = Some ''Blog'',
                    item_originalUrl = Some ''http://x/a.jpg'', item_thumb = None \<rparr>"

definition plainItem :: naver_item where
  \<comment> \<open>the same image with no source: score 0\<close>
  "plainItem = \<lparr> item_title = None, item_source = None,
                  item_originalUrl = Some ''http://x/a.jpg'', item_thumb = None \<rparr>"

definition changingWorld :: world where
  \<comment> \<open>Naver answers the first search with \<open>sourcedItem\<close> and later ones with \<open>plainItem\<close>; every probe succeeds\<close>
  "changingWorld =
     quietWorld\<lparr> naverGet := (\<lambda>tr q. Some [if length tr \<le> 1 then sourcedItem else plainItem]),
                  axiosHead := (\<lambda>_ _. Some \<lparr> status = 200, content_type = Some ''image/jpeg'' \<rparr>) \<rparr>"

definition personItem :: naver_item where
  \<comment> \<open>a title with the keyword for "person" (U+C0AC U+B78C): score -2\<close>
  "personItem = \<lparr> item_title = Some ko_person, item_source = None,
                   item_originalUrl = Some ''http://x/p.jpg'', item_thumb = None \<rparr>"

definition shopItem :: naver_item where
  \<comment> \<open>a food title on a shopping domain: score 3, blocked\<close>
  "shopItem = \<lparr> item_title = Some ko_food, item_source = None,
                 item_originalUrl = Some ''http://shopping.x/s.jpg'', item_thumb = None \<rparr>"

definition blogItem :: naver_item where
  \<comment> \<open>a blog thumbnail with a "person" title: score 8\<close>
  "blogItem = \<lparr> item_title = Some ko_person, item_source = None,
                 item_originalUrl = None, item_thumb = Some ''http://blog.naver.com/b.jpg'' \<rparr>"

definition personWorld :: world where
  "personWorld = quietWorld\<lparr> naverGet := (\<lambda>_ _. Some [personItem]) \<rparr>"

fun waterfallRequest :: "request \<Rightarrow> bool" where
  \<comment> \<open>the requests \<open>KoreanImageService\<close> can make\<close>
  "waterfallRequest (NaverGet q) = True"
| "waterfallRequest (PexelsGet q) = True"
| "waterfallRequest (PixabayGet q) = True"
| "waterfallRequest (HeadProbe link) = True"
| "waterfallRequest r = False"

definition issuedOnly :: "(request \<Rightarrow> bool) \<Rightarrow> request list \<Rightarrow> request list \<Rightarrow> bool" where
  \<comment> \<open>the later trace extends the earlier one by requests of the given kind only\<close>
  "issuedOnly kind tr tr' = (\<exists>new. tr' = tr @ new \<and> list_all kind new)"


definition busyWorld :: world where
  \<comment> \<open>Naver finds a reachable image; every other provider is configured\<close>
  "busyWorld =
     changingWorld\<lparr> pexelsApiKey := Some ''key'', pixabayApiKey := Some ''key'', accessKey := ''key'',
                     pexelsGet := (\<lambda>_ _. Some []), pixabayGet := (\<lambda>_ _. Some []),
                     unsplashGet := (\<lambda>_ _. Some []) \<rparr>"








section \<open>Properties of the OCR extraction step\<close>

lemma extract_Inr:
  assumes "extractKoreanFoodNames w st img = (Inr r, st')"
  shows "\<exists>response result more tokens.
           openaiOcr w (trace st) img = Some response
         \<and> choices response = Parsed result # more
         \<and> usage response = Some tokens
         \<and> st' = st\<lparr>trace := trace st @ [OpenAiOcr img]\<rparr>
         \<and> isKoreanMenu r = json_isKoreanMenu result
         \<and> extractedNames r = (case json_extractedNames result of None \<Rightarrow> [] | Some names \<Rightarrow> names)
         \<and> totalDetected r = json_totalDetected result"
  using assms
  by (auto simp: extractKoreanFoodNames_def Let_def
           split: option.splits list.splits message_content.splits)

lemma menu_extract:
  "extractKoreanFoodNames (menuWorld names detected) st img =
     (Inr \<lparr> isKoreanMenu = True,
            extractedNames = (case names of None \<Rightarrow> [] | Some ns \<Rightarrow> ns),
            totalDetected = detected,
            tokenUsage = \<lparr> prompt_tokens = 1000, completion_tokens = 500, total_tokens = 1500,
                           cost_usd = 3 / 400, cost_aud = 9 / 800 \<rparr> \<rparr>,
      st\<lparr>trace := trace st @ [OpenAiOcr img]\<rparr>)"
  by (simp add: extractKoreanFoodNames_def menuWorld_def quietWorld_def ocrAnswer_def
        promptTokenCost_def completionTokenCost_def)

text \<open>
  Claim C8. Whenever the OCR extraction succeeds, the token counts it reports are those of
  the provider's response, the reported \<open>cost_usd\<close> is
  \<open>prompt_tokens * (0.0025 / 1000) + completion_tokens * (0.01 / 1000)\<close> and the reported
  \<open>cost_aud\<close> is \<open>cost_usd * 1.5\<close>: the two rates and the multiplier are the same numbers
  for every call. (JavaScript numbers are modelled as reals; the source evaluates the same
  expression in double precision.)
\<close>

theorem extraction_cost_is_linear:
  assumes "extractKoreanFoodNames w st img = (Inr r, st')"
  shows "(\<exists>response tokens.
            openaiOcr w (trace st) img = Some response \<and> usage response = Some tokens
          \<and> prompt_tokens (tokenUsage r) = api_prompt_tokens tokens
          \<and> completion_tokens (tokenUsage r) = api_completion_tokens tokens)
       \<and> cost_usd (tokenUsage r)
           = real_of_int (prompt_tokens (tokenUsage r)) * (0.0025 / 1000)
             + real_of_int (completion_tokens (tokenUsage r)) * (0.01 / 1000)
       \<and> cost_aud (tokenUsage r) = cost_usd (tokenUsage r) * 1.5"
  using assms
  by (auto simp: extractKoreanFoodNames_def Let_def promptTokenCost_def completionTokenCost_def
           split: option.splits list.splits message_content.splits)

text \<open>
  An extraction with 1000 prompt tokens and 500 completion tokens: 0.0075 USD, 0.01125 AUD.
\<close>

theorem extraction_cost_is_linear_witness:
  "fst (extractKoreanFoodNames (menuWorld (Some [bibimbap]) (Some 1)) emptyStore ''img'')
     = Inr \<lparr> isKoreanMenu = True, extractedNames = [bibimbap], totalDetected = Some 1,
             tokenUsage = \<lparr> prompt_tokens = 1000, completion_tokens = 500, total_tokens = 1500,
                            cost_usd = 3 / 400, cost_aud = 9 / 800 \<rparr> \<rparr>
   \<and> (3 / 400 :: real) = 1000 * (0.0025 / 1000) + 500 * (0.01 / 1000)
   \<and> (9 / 800 :: real) = 3 / 400 * 1.5"
  using extraction_cost_is_linear [OF menu_extract, of "Some [bibimbap]" "Some 1" emptyStore "''img''"]
  by (simp add: menu_extract)

section \<open>Properties of dish resolution\<close>

lemma searchNaverQueries_down:
  "naverGet w = (\<lambda>_ _. None) \<Longrightarrow> searchNaverQueries w tr qs = (None, tr @ map NaverGet qs)"
  by (induction qs arbitrary: tr) simp_all

lemma searchKoreanFood_down:
  assumes "naverGet w = (\<lambda>_ _. None)" "pexelsApiKey w = None" "pixabayApiKey w = None" "accessKey w = []"
  shows "searchKoreanFood w tr k eo =
           (None, tr @ map NaverGet (naverQueries k (if truthy eo then orEmpty eo else k)))"
  using assms
  by (simp add: searchKoreanFood_def searchKoreanFoodImage_def searchNaver_def
        searchNaverQueries_down waterfallFromPexels_def searchPexels_def
        waterfallFromPixabay_def searchPixabay_def truthy_def)

lemma findKoreanFood_cases:
  "findKoreanFood w st k = (r, st') \<Longrightarrow>
     st' = st\<lparr>trace := trace st @ [DbFind k]\<rparr>
     \<and> (case dbError w (trace st) (DbFind k) of
           Some msg \<Rightarrow> r = Inl (Error msg)
         | None \<Rightarrow> r = Inr (find (\<lambda>row. kf_nameKorean (row_data row) = k) (koreanFoods st)))"
  by (auto simp: findKoreanFood_def split: option.splits)


lemma createKoreanFood_cases:
  "createKoreanFood w st food = (r, st') \<Longrightarrow>
     trace st' = trace st @ [DbInsert food]
     \<and> (case r of
           Inl e \<Rightarrow> koreanFoods st' = koreanFoods st \<and> nextId st' = nextId st
         | Inr saved \<Rightarrow>
             saved = \<lparr> row_id = nextId st, row_data = columnDefaults food \<rparr>
             \<and> koreanFoods st' = koreanFoods st @ [saved] \<and> nextId st' = Suc (nextId st))"
  by (auto simp: createKoreanFood_def Let_def split: option.splits)

lemma getFoodDetailsFromAI_state:
  "getFoodDetailsFromAI w st k = (r, st') \<Longrightarrow> st' = st\<lparr>trace := trace st @ [OpenAiDetails k]\<rparr>"
  by (auto simp: getFoodDetailsFromAI_def Let_def split: option.splits list.splits message_content.splits)

lemma resolveFromAI_Inr:
  assumes "resolveFromAI w st k = (Inr d, st')"
  shows "\<exists>aiData st1 imageResult saved.
           getFoodDetailsFromAI w st k = (Inr aiData, st1)
         \<and> imageResult = fst (searchKoreanFood w (trace st1) k (Some (kf_nameEnglish (ai_data aiData))))
         \<and> saved = \<lparr> row_id = nextId st,
                      row_data = columnDefaults ((ai_data aiData)\<lparr>kf_imageUrl := fst (parseImageResult imageResult)\<rparr>) \<rparr>
         \<and> d = aiDish aiData saved imageResult
         \<and> koreanFoods st' = koreanFoods st @ [saved]
         \<and> nextId st' = Suc (nextId st)
         \<and> last (trace st') = DbInsert ((ai_data aiData)\<lparr>kf_imageUrl := fst (parseImageResult imageResult)\<rparr>)"
  using assms
  apply (simp add: resolveFromAI_def split: prod.splits sum.splits)
  apply (auto dest!: createKoreanFood_cases getFoodDetailsFromAI_state)
  done

lemma resolveFromAI_Inl:
  "resolveFromAI w st k = (Inl e, st') \<Longrightarrow> koreanFoods st' = koreanFoods st \<and> nextId st' = nextId st"
  apply (simp add: resolveFromAI_def split: prod.splits sum.splits)
  apply (auto dest!: createKoreanFood_cases getFoodDetailsFromAI_state)
  done








lemma quiet_down:
  "naverGet quietWorld = (\<lambda>_ _. None)" "pexelsApiKey quietWorld = None"
  "pixabayApiKey quietWorld = None" "accessKey quietWorld = []"
  "naverGet aiWorld = (\<lambda>_ _. None)" "pexelsApiKey aiWorld = None"
  "pixabayApiKey aiWorld = None" "accessKey aiWorld = []"
  by (simp_all add: quietWorld_def aiWorld_def)



lemma hotteok_not_bibimbap: "bibimbap \<noteq> hotteok"
  by (simp add: bibimbap_def hotteok_def)








section \<open>Properties of the menu analysis orchestrator\<close>

lemma startsWith_append: "startsWith (p @ s) p"
  by (induction p) simp_all

lemma food_limit_marker: "js_includes (foodLimitMessage n) ''FOOD_LIMIT_ERROR:''"
  by (simp add: foodLimitMessage_def)

lemma rethrow_food_limit: "rethrow (Error (foodLimitMessage n)) = Error (foodLimitMessage n)"
  by (simp add: rethrow_def food_limit_marker)

lemma food_limit_not_generic: "foodLimitMessage n \<noteq> ''Failed to analyze menu''"
  by (simp add: foodLimitMessage_def)

lemma showInt_5: "showInt 5 = ''5''"
  by code_simp

text \<open>
  Claim C2. Whenever the OCR step succeeds and reports a \<open>totalDetected\<close> above 3, the
  analysis ends with the \<open>FOOD_LIMIT_ERROR\<close> failure, whose message carries the detected
  count. The failure passes the outer \<open>catch\<close> unchanged (it is not the generic
  "Failed to analyze menu"), and at that point the only external call made is the OCR
  request: the store is untouched and nothing was resolved.
\<close>

theorem too_many_items_rejected:
  assumes "extractKoreanFoodNames w st img = (Inr r, st1)"
    and "totalDetected r = Some n" and "n > 3"
  shows "analyzeKoreanMenu w st img =
           (Inl (Error (''FOOD_LIMIT_ERROR: Too many menu items detected ('' @ showInt n
                          @ '' items found). Please upload a photo with 3 or fewer menu items for analysis.'')),
            st1)
       \<and> fst (analyzeKoreanMenu w st img) \<noteq> Inl (Error ''Failed to analyze menu'')
       \<and> koreanFoods st1 = koreanFoods st \<and> nextId st1 = nextId st
       \<and> trace st1 = trace st @ [OpenAiOcr img]"
proof -
  have lim: "foodLimitError (totalDetected r) = Some (Error (foodLimitMessage n))"
    using assms(2,3) by (simp add: foodLimitError_def)
  have run: "analyzeKoreanMenu w st img = (Inl (Error (foodLimitMessage n)), st1)"
    by (simp add: analyzeKoreanMenu_def assms(1) lim rethrow_food_limit)
  from extract_Inr [OF assms(1)] have st1: "st1 = st\<lparr>trace := trace st @ [OpenAiOcr img]\<rparr>"
    by blast
  show ?thesis
    unfolding run using food_limit_not_generic [of n]
    by (simp add: st1 foodLimitMessage_def)
qed

text \<open>Five items detected, three names extracted, against a store holding one of them.\<close>

theorem too_many_items_rejected_witness:
  "analyzeKoreanMenu (menuWorld (Some [bibimbap, hotteok, bibimbap]) (Some 5)) seededStore ''img'' =
     (Inl (Error ''FOOD_LIMIT_ERROR: Too many menu items detected (5 items found). Please upload a photo with 3 or fewer menu items for analysis.''),
      seededStore\<lparr>trace := [OpenAiOcr ''img'']\<rparr>)"
proof -
  have t: "trace seededStore = []" by (simp add: seededStore_def)
  have td: "totalDetected \<lparr> isKoreanMenu = True,
            extractedNames = (case Some [bibimbap, hotteok, bibimbap] of None \<Rightarrow> [] | Some ns \<Rightarrow> ns),
            totalDetected = Some 5,
            tokenUsage = \<lparr> prompt_tokens = 1000, completion_tokens = 500, total_tokens = 1500,
                           cost_usd = 3 / 400, cost_aud = 9 / 800 \<rparr> \<rparr> = Some 5"
    by simp
  have five: "(5::int) > 3" by simp
  from too_many_items_rejected [OF menu_extract td five]
  show ?thesis
    by (simp add: showInt_5 t)
qed

lemma menu_down:
  "naverGet (menuWorld a b) = (\<lambda>_ _. None)" "pexelsApiKey (menuWorld a b) = None"
  "pixabayApiKey (menuWorld a b) = None" "accessKey (menuWorld a b) = []"
  "dbError (menuWorld a b) = (\<lambda>_ _. None)" "openaiDetails (menuWorld a b) = (\<lambda>_ _. None)"
  by (simp_all add: menuWorld_def quietWorld_def)

lemma resolveName_hit_down:
  assumes "naverGet w = (\<lambda>_ _. None)" "pexelsApiKey w = None" "pixabayApiKey w = None" "accessKey w = []"
    and "dbError w (trace st) (DbFind k) = None"
    and "find (\<lambda>row. kf_nameKorean (row_data row) = k) (koreanFoods st) = Some row"
  shows "resolveName w k ds u st =
           (Inr (ds @ [databaseDish row None], u),
            st\<lparr>trace := trace st @ DbFind k # map NaverGet
                   (naverQueries k (if kf_nameEnglish (row_data row) \<noteq> [] then kf_nameEnglish (row_data row) else k))\<rparr>)"
  using assms(5,6)
  by (simp add: resolveName_def findKoreanFood_def resolveFromDatabase_def
        searchKoreanFood_down [OF assms(1-4)] truthy_def orEmpty_def)

lemma resolveName_miss_ai_down:
  assumes "openaiDetails w (trace st @ [DbFind k]) k = None"
    and "dbError w (trace st) (DbFind k) = None"
    and "find (\<lambda>row. kf_nameKorean (row_data row) = k) (koreanFoods st) = None"
  shows "resolveName w k ds u st =
           (Inl (Error ''Failed to get food details from AI''),
            st\<lparr>trace := trace st @ [DbFind k, OpenAiDetails k]\<rparr>)"
  using assms
  by (simp add: resolveName_def findKoreanFood_def resolveFromAI_def getFoodDetailsFromAI_def)

lemma resolveName_appends:
  "resolveName w k ds u st = (Inr (ds1, u1), st1) \<Longrightarrow> \<exists>d. ds1 = ds @ [d]"
  by (auto simp: resolveName_def split: prod.splits sum.splits option.splits)

lemma resolveAll_length:
  "length (fst (fst (resolveAll w names ds u st))) = length ds + countResolved w names ds u st"
proof (induction names arbitrary: ds u st)
  case Nil
  show ?case by simp
next
  case (Cons k names)
  obtain res st1 where r: "resolveName w k ds u st = (res, st1)"
    by (cases "resolveName w k ds u st")
  show ?case
  proof (cases res)
    case (Inl e)
    with r Cons.IH [of ds u st1] show ?thesis by simp
  next
    case (Inr acc)
    obtain ds1 u1 where acc: "acc = (ds1, u1)" by (cases acc)
    from resolveName_appends r Inr acc obtain d where "ds1 = ds @ [d]" by blast
    with r Inr acc Cons.IH [of ds1 u1 st1] show ?thesis by simp
  qed
qed

text \<open>
  Claim C3. Whenever the OCR step succeeds on a Korean menu with \<open>totalDetected\<close> absent or
  at most 3, the analysis returns a result whatever happens while the names are resolved,
  and the number of dishes in it is the number of extracted names whose \<open>try\<close> block ran
  to its end without a throw: a name that fails is skipped and the loop goes on.
\<close>

theorem partial_failure_tolerance:
  assumes "extractKoreanFoodNames w st img = (Inr r, st1)"
    and "isKoreanMenu r"
    and "totalDetected r = None \<or> (\<exists>n. totalDetected r = Some n \<and> n \<le> 3)"
  shows "\<exists>res st2. analyzeKoreanMenu w st img = (Inr res, st2)
           \<and> analysis_isKoreanMenu res
           \<and> length (analysis_dishes res) = countResolved w (extractedNames r) [] (tokenUsage r) st1"
proof -
  have lim: "foodLimitError (totalDetected r) = None"
    using assms(3) by (auto simp: foodLimitError_def)
  obtain ds u st2 where run: "resolveAll w (extractedNames r) [] (tokenUsage r) st1 = ((ds, u), st2)"
    by (metis prod.exhaust)
  have "analyzeKoreanMenu w st img =
          (Inr \<lparr> analysis_isKoreanMenu = True, analysis_dishes = ds, analysis_tokenUsage = u \<rparr>, st2)"
    by (simp add: analyzeKoreanMenu_def assms(1,2) lim run)
  moreover from resolveAll_length [of w "extractedNames r" "[]" "tokenUsage r" st1]
  have "length ds = countResolved w (extractedNames r) [] (tokenUsage r) st1"
    by (simp add: run)
  ultimately show ?thesis by simp
qed

lemmas run_defs =
  resolveName_def findKoreanFood_def resolveFromDatabase_def resolveFromAI_def
  getFoodDetailsFromAI_def createKoreanFood_def truthy_def orEmpty_def

lemma skip_run:
  "resolveAll (menuWorld (Some [hotteok, bibimbap]) (Some 2)) [hotteok, bibimbap] [] u
       (seededStore\<lparr>trace := [OpenAiOcr ''img'']\<rparr>) =
     (([databaseDish (storedFood 1 bibimbap ''Bibimbap'' 420) None], u),
      seededStore\<lparr>trace := [OpenAiOcr ''img'', DbFind hotteok, OpenAiDetails hotteok, DbFind bibimbap]
                              @ map NaverGet (naverQueries bibimbap ''Bibimbap'')\<rparr>)"
  by (simp add: run_defs searchKoreanFood_down menu_down seededStore_def storedFood_def
        hotteok_not_bibimbap)

lemma skip_count:
  "countResolved (menuWorld (Some [hotteok, bibimbap]) (Some 2)) [hotteok, bibimbap] [] u
       (seededStore\<lparr>trace := [OpenAiOcr ''img'']\<rparr>) = 1"
  by (simp add: run_defs searchKoreanFood_down menu_down seededStore_def storedFood_def
        hotteok_not_bibimbap)

text \<open>
  Two names: the first is absent from the store and the text model is down, so it fails; the
  second is stored and is resolved after the failure.
\<close>

theorem partial_failure_tolerance_witness:
  "fst (analyzeKoreanMenu (menuWorld (Some [hotteok, bibimbap]) (Some 2)) seededStore ''img'') =
     Inr \<lparr> analysis_isKoreanMenu = True,
            analysis_dishes = [databaseDish (storedFood 1 bibimbap ''Bibimbap'' 420) None],
            analysis_tokenUsage = \<lparr> prompt_tokens = 1000, completion_tokens = 500, total_tokens = 1500,
                                     cost_usd = 3 / 400, cost_aud = 9 / 800 \<rparr> \<rparr>
   \<and> countResolved (menuWorld (Some [hotteok, bibimbap]) (Some 2)) [hotteok, bibimbap] []
         \<lparr> prompt_tokens = 1000, completion_tokens = 500, total_tokens = 1500,
           cost_usd = 3 / 400, cost_aud = 9 / 800 \<rparr>
         (seededStore\<lparr>trace := [OpenAiOcr ''img'']\<rparr>) = 1"
proof -
  have t: "trace seededStore = []" by (simp add: seededStore_def)
  have ok: "isKoreanMenu \<lparr> isKoreanMenu = True,
            extractedNames = (case Some [hotteok, bibimbap] of None \<Rightarrow> [] | Some ns \<Rightarrow> ns),
            totalDetected = Some 2,
            tokenUsage = \<lparr> prompt_tokens = 1000, completion_tokens = 500, total_tokens = 1500,
                           cost_usd = 3 / 400, cost_aud = 9 / 800 \<rparr> \<rparr>"
    by simp
  have td: "totalDetected \<lparr> isKoreanMenu = True,
            extractedNames = (case Some [hotteok, bibimbap] of None \<Rightarrow> [] | Some ns \<Rightarrow> ns),
            totalDetected = Some 2,
            tokenUsage = \<lparr> prompt_tokens = 1000, completion_tokens = 500, total_tokens = 1500,
                           cost_usd = 3 / 400, cost_aud = 9 / 800 \<rparr> \<rparr> = None
          \<or> (\<exists>n. totalDetected \<lparr> isKoreanMenu = True,
            extractedNames = (case Some [hotteok, bibimbap] of None \<Rightarrow> [] | Some ns \<Rightarrow> ns),
            totalDetected = Some 2,
            tokenUsage = \<lparr> prompt_tokens = 1000, completion_tokens = 500, total_tokens = 1500,
                           cost_usd = 3 / 400, cost_aud = 9 / 800 \<rparr> \<rparr> = Some n \<and> n \<le> 3)"
    by simp
  have run: "fst (analyzeKoreanMenu (menuWorld (Some [hotteok, bibimbap]) (Some 2)) seededStore ''img'') =
     Inr \<lparr> analysis_isKoreanMenu = True,
            analysis_dishes = [databaseDish (storedFood 1 bibimbap ''Bibimbap'' 420) None],
            analysis_tokenUsage = \<lparr> prompt_tokens = 1000, completion_tokens = 500, total_tokens = 1500,
                                     cost_usd = 3 / 400, cost_aud = 9 / 800 \<rparr> \<rparr>"
    by (simp add: analyzeKoreanMenu_def menu_extract foodLimitError_def t skip_run del: resolveAll.simps)
  from partial_failure_tolerance [OF menu_extract ok td]
  show ?thesis
    by (simp only: run skip_count simp_thms)
qed

lemma four_run:
  "resolveAll (menuWorld (Some fourNames) None) fourNames [] u (fourStore\<lparr>trace := [OpenAiOcr ''img'']\<rparr>) =
     ((map (\<lambda>row. databaseDish row None) (koreanFoods fourStore), u),
      fourStore\<lparr>trace := OpenAiOcr ''img'' #
         concat (map (\<lambda>row. DbFind (kf_nameKorean (row_data row)) #
                        map NaverGet (naverQueries (kf_nameKorean (row_data row)) (kf_nameEnglish (row_data row))))
                     (koreanFoods fourStore))\<rparr>)"
  by (simp add: run_defs searchKoreanFood_down menu_down fourStore_def fourNames_def storedFood_def)

text \<open>
  Claim C5 as stated does not hold: the extraction step hands on whatever list the model
  returned. With four names and no \<open>totalDetected\<close> in the answer, four names reach the
  orchestrator and four dishes come back.
\<close>

theorem extraction_not_bounded_counterexample:
  "fst (extractKoreanFoodNames (menuWorld (Some fourNames) None) fourStore ''img'') =
     Inr \<lparr> isKoreanMenu = True, extractedNames = fourNames, totalDetected = None,
            tokenUsage = \<lparr> prompt_tokens = 1000, completion_tokens = 500, total_tokens = 1500,
                           cost_usd = 3 / 400, cost_aud = 9 / 800 \<rparr> \<rparr>
   \<and> length fourNames = 4
   \<and> fst (analyzeKoreanMenu (menuWorld (Some fourNames) None) fourStore ''img'') =
       Inr \<lparr> analysis_isKoreanMenu = True,
              analysis_dishes = map (\<lambda>row. databaseDish row None) (koreanFoods fourStore),
              analysis_tokenUsage = \<lparr> prompt_tokens = 1000, completion_tokens = 500, total_tokens = 1500,
                                       cost_usd = 3 / 400, cost_aud = 9 / 800 \<rparr> \<rparr>
   \<and> length (koreanFoods fourStore) = 4"
proof -
  have t: "trace fourStore = []" by (simp add: fourStore_def)
  have "fst (analyzeKoreanMenu (menuWorld (Some fourNames) None) fourStore ''img'') =
       Inr \<lparr> analysis_isKoreanMenu = True,
              analysis_dishes = map (\<lambda>row. databaseDish row None) (koreanFoods fourStore),
              analysis_tokenUsage = \<lparr> prompt_tokens = 1000, completion_tokens = 500, total_tokens = 1500,
                                       cost_usd = 3 / 400, cost_aud = 9 / 800 \<rparr> \<rparr>"
    by (simp add: analyzeKoreanMenu_def menu_extract foodLimitError_def t four_run del: resolveAll.simps)
  moreover have "length fourNames = 4" "length (koreanFoods fourStore) = 4"
    by (simp_all add: fourNames_def fourStore_def)
  ultimately show ?thesis
    by (simp add: menu_extract)
qed

text \<open>
  Claim C5, amended. When the provider answers with a parseable object and a usage record,
  the extraction step succeeds and its \<open>extractedNames\<close> is the model's list unchanged (the
  empty list when the field is absent); the limit of three names is only asked of the model
  in the prompt, and the orchestrator rejects only on \<open>totalDetected > 3\<close>.
\<close>

theorem extraction_returns_model_names:
  assumes "openaiOcr w (trace st) img = Some response"
    and "choices response = Parsed result # others"
    and "usage response = Some tokens"
  shows "\<exists>r. extractKoreanFoodNames w st img = (Inr r, st\<lparr>trace := trace st @ [OpenAiOcr img]\<rparr>)
           \<and> extractedNames r = (case json_extractedNames result of None \<Rightarrow> [] | Some names \<Rightarrow> names)
           \<and> totalDetected r = json_totalDetected result"
  using assms by (simp add: extractKoreanFoodNames_def)

text \<open>The same four-name answer.\<close>

theorem extraction_returns_model_names_witness:
  "extractKoreanFoodNames (menuWorld (Some fourNames) None) emptyStore ''img'' =
     (Inr \<lparr> isKoreanMenu = True, extractedNames = fourNames, totalDetected = None,
            tokenUsage = \<lparr> prompt_tokens = 1000, completion_tokens = 500, total_tokens = 1500,
                           cost_usd = 3 / 400, cost_aud = 9 / 800 \<rparr> \<rparr>,
      emptyStore\<lparr>trace := [OpenAiOcr ''img'']\<rparr>)"
proof -
  have a: "openaiOcr (menuWorld (Some fourNames) None) (trace emptyStore) ''img''
             = Some (ocrAnswer (Some fourNames) None)"
    by (simp add: menuWorld_def)
  have b: "choices (ocrAnswer (Some fourNames) None)
             = Parsed \<lparr> json_isKoreanMenu = True, json_extractedNames = Some fourNames,
                        json_totalDetected = None \<rparr> # []"
    by (simp add: ocrAnswer_def)
  have c: "usage (ocrAnswer (Some fourNames) None)
             = Some \<lparr> api_prompt_tokens = 1000, api_completion_tokens = 500, api_total_tokens = 1500 \<rparr>"
    by (simp add: ocrAnswer_def)
  have t: "trace emptyStore = []" by (simp add: emptyStore_def)
  from extraction_returns_model_names [OF a b c]
  show ?thesis
    by (simp add: menu_extract t)
qed

lemma splitOn_first:
  "splitOn c s = takeWhile (\<lambda>x. x \<noteq> c) s
                   # (if c \<in> set s then splitOn c (tl (dropWhile (\<lambda>x. x \<noteq> c) s)) else [])"
  by (induction s) (auto split: list.splits)

lemma parse_none: "parseImageResult None = (None, ''high'')"
  by (simp add: parseImageResult_def truthy_def)

lemma parse_lacks:
  assumes "lacksAccuracySuffix r"
  shows "snd (parseImageResult r) = ''high''"
proof (cases r)
  case None
  then show ?thesis by (simp add: parse_none)
next
  case (Some s)
  show ?thesis
  proof (cases "s = []")
    case True
    with Some show ?thesis by (simp add: parseImageResult_def truthy_def)
  next
    case False
    show ?thesis
    proof (cases "CHR ''|'' \<in> set s")
      case no: False
      have "splitOn CHR ''|'' s = [takeWhile (\<lambda>x. x \<noteq> CHR ''|'') s]"
        using no by (subst splitOn_first) simp
      with Some False show ?thesis
        by (simp add: parseImageResult_def truthy_def orEmpty_def)
    next
      case yes: True
      let ?rest = "tl (dropWhile (\<lambda>x. x \<noteq> CHR ''|'') s)"
      from assms Some yes have e: "takeWhile (\<lambda>x. x \<noteq> CHR ''|'') ?rest = []"
        by (simp add: lacksAccuracySuffix_def accuracySuffix_def)
      have "splitOn CHR ''|'' s = takeWhile (\<lambda>x. x \<noteq> CHR ''|'') s # splitOn CHR ''|'' ?rest"
        using yes by (subst splitOn_first) simp
      also have "splitOn CHR ''|'' ?rest
                   = [] # (if CHR ''|'' \<in> set ?rest
                           then splitOn CHR ''|'' (tl (dropWhile (\<lambda>x. x \<noteq> CHR ''|'') ?rest)) else [])"
        by (subst splitOn_first) (simp only: e)
      finally show ?thesis
        using Some False by (simp add: parseImageResult_def truthy_def orEmpty_def)
    qed
  qed
qed

text \<open>
  Claim C10. When the image search returns nothing, or a string with no \<open>|\<close> or with
  nothing between the first \<open>|\<close> and the next, the dish built from it, on the store path
  and on the generative path alike, has \<open>imageAccuracy = 'high'\<close>; with no result at all
  its \<open>imageUrl\<close> is \<open>null\<close> as well. The dishes the two paths of the loop return are
  these dishes.
\<close>

theorem image_accuracy_defaults_to_high:
  assumes "lacksAccuracySuffix imageResult"
  shows "imageAccuracy (databaseDish foodData imageResult) = ''high''
       \<and> imageAccuracy (aiDish aiData savedFood imageResult) = ''high''
       \<and> (imageResult = None \<longrightarrow>
             imageUrl (databaseDish foodData imageResult) = None
           \<and> imageUrl (aiDish aiData savedFood imageResult) = None)
       \<and> (\<forall>w st k. fst (searchKoreanFood w (trace st) k (Some (kf_nameEnglish (row_data foodData))))
                        = imageResult
             \<longrightarrow> imageAccuracy (fst (resolveFromDatabase w st k foodData)) = ''high'')
       \<and> (\<forall>w st k st1 d st'.
             getFoodDetailsFromAI w st k = (Inr aiData, st1)
           \<and> fst (searchKoreanFood w (trace st1) k (Some (kf_nameEnglish (ai_data aiData)))) = imageResult
           \<and> resolveFromAI w st k = (Inr d, st')
             \<longrightarrow> imageAccuracy d = ''high'')"
proof -
  note high = parse_lacks [OF assms]
  have a: "imageAccuracy (databaseDish foodData imageResult) = ''high''"
    by (simp add: databaseDish_def high)
  have b: "imageAccuracy (aiDish aiData savedFood imageResult) = ''high''"
    by (simp add: aiDish_def high)
  have c: "imageResult = None \<longrightarrow>
             imageUrl (databaseDish foodData imageResult) = None
           \<and> imageUrl (aiDish aiData savedFood imageResult) = None"
    by (simp add: databaseDish_def aiDish_def parse_none)
  have d: "\<forall>w st k. fst (searchKoreanFood w (trace st) k (Some (kf_nameEnglish (row_data foodData))))
                        = imageResult
             \<longrightarrow> imageAccuracy (fst (resolveFromDatabase w st k foodData)) = ''high''"
    by (auto simp: resolveFromDatabase_def databaseDish_def high split: prod.splits)
  have e: "\<forall>w st k st1 d st'.
             getFoodDetailsFromAI w st k = (Inr aiData, st1)
           \<and> fst (searchKoreanFood w (trace st1) k (Some (kf_nameEnglish (ai_data aiData)))) = imageResult
           \<and> resolveFromAI w st k = (Inr d, st')
             \<longrightarrow> imageAccuracy d = ''high''"
  proof (intro allI impI, elim conjE)
    fix w st k st1 d st'
    assume g: "getFoodDetailsFromAI w st k = (Inr aiData, st1)"
      and i: "fst (searchKoreanFood w (trace st1) k (Some (kf_nameEnglish (ai_data aiData)))) = imageResult"
      and r: "resolveFromAI w st k = (Inr d, st')"
    from resolveFromAI_Inr [OF r] g i obtain saved where "d = aiDish aiData saved imageResult"
      by auto
    then show "imageAccuracy d = ''high''"
      by (simp add: aiDish_def high)
  qed
  from a b c d e show ?thesis by blast
qed

lemma lacks_examples:
  "lacksAccuracySuffix None"
  "lacksAccuracySuffix (Some ''http://x/a.jpg'')"
  "lacksAccuracySuffix (Some ''http://x/a.jpg|'')"
  by (simp_all add: lacksAccuracySuffix_def accuracySuffix_def)

lemma parse_examples:
  "parseImageResult (Some ''http://x/a.jpg'') = (Some ''http://x/a.jpg'', ''high'')"
  "parseImageResult (Some ''http://x/a.jpg|'') = (Some ''http://x/a.jpg'', ''high'')"
  "parseImageResult (Some ''http://x/a.jpg|low'') = (Some ''http://x/a.jpg'', ''low'')"
  by (simp_all add: parseImageResult_def truthy_def orEmpty_def)

lemma quiet_resolve_database:
  "resolveFromDatabase quietWorld st k row =
     (databaseDish row None,
      st\<lparr>trace := trace st @ map NaverGet
             (naverQueries k (if kf_nameEnglish (row_data row) \<noteq> [] then kf_nameEnglish (row_data row) else k))\<rparr>)"
  by (simp add: resolveFromDatabase_def searchKoreanFood_down quiet_down truthy_def orEmpty_def)

text \<open>
  No image at all (every provider down), a result with no separator, and a result that ends
  at the separator.
\<close>

theorem image_accuracy_defaults_to_high_witness:
  "lacksAccuracySuffix None
   \<and> imageAccuracy (fst (resolveFromDatabase quietWorld seededStore bibimbap
                            (storedFood 1 bibimbap ''Bibimbap'' 420))) = ''high''
   \<and> imageUrl (fst (resolveFromDatabase quietWorld seededStore bibimbap
                       (storedFood 1 bibimbap ''Bibimbap'' 420))) = None
   \<and> imageAccuracy (aiDish hotteokDetails \<lparr> row_id = 2, row_data = ai_data hotteokDetails \<rparr> None) = ''high''
   \<and> lacksAccuracySuffix (Some ''http://x/a.jpg'')
   \<and> imageAccuracy (databaseDish (storedFood 1 bibimbap ''Bibimbap'' 420) (Some ''http://x/a.jpg'')) = ''high''
   \<and> lacksAccuracySuffix (Some ''http://x/a.jpg|'')
   \<and> imageAccuracy (databaseDish (storedFood 1 bibimbap ''Bibimbap'' 420) (Some ''http://x/a.jpg|'')) = ''high''"
proof -
  have d: "fst (resolveFromDatabase quietWorld seededStore bibimbap (storedFood 1 bibimbap ''Bibimbap'' 420))
             = databaseDish (storedFood 1 bibimbap ''Bibimbap'' 420) None"
    by (simp add: quiet_resolve_database)
  have u: "imageUrl (databaseDish (storedFood 1 bibimbap ''Bibimbap'' 420) None) = None"
    by (simp add: databaseDish_def parse_none)
  from image_accuracy_defaults_to_high [OF lacks_examples(1),
         of "storedFood 1 bibimbap ''Bibimbap'' 420" hotteokDetails
            "\<lparr> row_id = 2, row_data = ai_data hotteokDetails \<rparr>"]
       image_accuracy_defaults_to_high [OF lacks_examples(2),
         of "storedFood 1 bibimbap ''Bibimbap'' 420" hotteokDetails
            "\<lparr> row_id = 2, row_data = ai_data hotteokDetails \<rparr>"]
       image_accuracy_defaults_to_high [OF lacks_examples(3),
         of "storedFood 1 bibimbap ''Bibimbap'' 420" hotteokDetails
            "\<lparr> row_id = 2, row_data = ai_data hotteokDetails \<rparr>"]
  show ?thesis
    by (simp only: lacks_examples d u simp_thms)
qed

lemma resolveName_hit_total:
  assumes "find (\<lambda>row. kf_nameKorean (row_data row) = k) (koreanFoods st) = Some row"
    and "dbError w (trace st) (DbFind k) = None"
  shows "resolveName w k ds u st =
           (Inr (ds @ [databaseDish row
                         (fst (searchKoreanFood w (trace st @ [DbFind k]) k
                                 (Some (kf_nameEnglish (row_data row)))))], u),
            st\<lparr>trace := snd (searchKoreanFood w (trace st @ [DbFind k]) k
                                 (Some (kf_nameEnglish (row_data row))))\<rparr>)"
  using assms
  by (simp add: resolveName_def findKoreanFood_def resolveFromDatabase_def split: prod.splits)

lemma databaseDish_image_only:
  "databaseDish row r2 = (databaseDish row r1)
       \<lparr> imageUrl := imageUrl (databaseDish row r2),
         imageAccuracy := imageAccuracy (databaseDish row r2) \<rparr>"
  by (simp add: databaseDish_def)

text \<open>
  Claim C9, amended. When the store holds a row for the name and the lookup does not fail,
  resolving the name returns a dish and leaves the store as it was; resolving it again, in
  any world and from any state with the same table, returns a dish that agrees with the
  first in every field except \<open>imageUrl\<close> and \<open>imageAccuracy\<close>, the two fields taken
  from the image search.
\<close>

theorem stored_name_resolution_idempotent:
  assumes "find (\<lambda>row. kf_nameKorean (row_data row) = koreanName) (koreanFoods st) = Some row"
    and "dbError w (trace st) (DbFind koreanName) = None"
    and "koreanFoods st2 = koreanFoods st"
    and "dbError w' (trace st2) (DbFind koreanName) = None"
  shows "\<exists>d1 st1 d2 st3.
           resolveName w koreanName dishes totalTokenUsage st = (Inr (dishes @ [d1], totalTokenUsage), st1)
         \<and> koreanFoods st1 = koreanFoods st
         \<and> resolveName w' koreanName dishes' usage' st2 = (Inr (dishes' @ [d2], usage'), st3)
         \<and> koreanFoods st3 = koreanFoods st
         \<and> d2 = d1\<lparr> imageUrl := imageUrl d2, imageAccuracy := imageAccuracy d2 \<rparr>"
proof -
  let ?r1 = "fst (searchKoreanFood w (trace st @ [DbFind koreanName]) koreanName
                    (Some (kf_nameEnglish (row_data row))))"
  let ?r2 = "fst (searchKoreanFood w' (trace st2 @ [DbFind koreanName]) koreanName
                    (Some (kf_nameEnglish (row_data row))))"
  have f2: "find (\<lambda>row. kf_nameKorean (row_data row) = koreanName) (koreanFoods st2) = Some row"
    using assms(1,3) by simp
  note one = resolveName_hit_total [OF assms(1,2), of dishes totalTokenUsage]
  note two = resolveName_hit_total [OF f2 assms(4), of dishes' usage']
  show ?thesis
    apply (rule exI [of _ "databaseDish row ?r1"])
    apply (rule exI [of _ "st\<lparr>trace := snd (searchKoreanFood w (trace st @ [DbFind koreanName]) koreanName
                                 (Some (kf_nameEnglish (row_data row))))\<rparr>"])
    apply (rule exI [of _ "databaseDish row ?r2"])
    apply (rule exI [of _ "st2\<lparr>trace := snd (searchKoreanFood w' (trace st2 @ [DbFind koreanName]) koreanName
                                 (Some (kf_nameEnglish (row_data row))))\<rparr>"])
    apply (intro conjI)
        apply (rule one)
       apply simp
      apply (rule two)
     apply (simp add: assms(3))
    apply (rule databaseDish_image_only)
    done
qed

lemma item_facts:
  "naverScore sourcedItem = 2" "naverScore plainItem = 0"
  "itemLink sourcedItem = Some ''http://x/a.jpg''" "itemLink plainItem = Some ''http://x/a.jpg''"
  "blockedLink (Some ''http://x/a.jpg'') = False" "blogLink (Some ''http://x/a.jpg'') = False"
  "item_title sourcedItem = None" "item_title plainItem = None"
  by code_simp+

lemma changing_pick:
  "naverPick q [sourcedItem] =
     Some \<lparr> url = Some ''http://x/a.jpg'', provider_of = Naver, accuracy_of = Medium,
            title = None, found_via = ''Found via Naver search: '' @ q \<rparr>"
  "naverPick q [plainItem] =
     Some \<lparr> url = Some ''http://x/a.jpg'', provider_of = Naver, accuracy_of = Low,
            title = None, found_via = ''Found via Naver search: '' @ q \<rparr>"
  by (simp_all add: naverPick_def sortByRelevance_def item_facts naverAccuracy_def)

lemma changing_search:
  "searchKoreanFood changingWorld tr k (Some ''Bibimbap'') =
     (Some (''http://x/a.jpg|'' @ (if length tr \<le> 1 then ''medium'' else ''low'')),
      tr @ [NaverGet k, HeadProbe ''http://x/a.jpg''])"
  by (simp add: searchKoreanFood_def searchKoreanFoodImage_def searchNaver_def naverQueries_def
        changingWorld_def quietWorld_def changing_pick validateImageUrl_def formatResult_def
        templateString_def truthy_def orEmpty_def)

lemma changing_first:
  "resolveName changingWorld bibimbap [] zeroUsage seededStore =
     (Inr ([databaseDish (storedFood 1 bibimbap ''Bibimbap'' 420) (Some ''http://x/a.jpg|medium'')], zeroUsage),
      seededStore\<lparr>trace := [DbFind bibimbap, NaverGet bibimbap, HeadProbe ''http://x/a.jpg'']\<rparr>)"
proof -
  have f: "find (\<lambda>row. kf_nameKorean (row_data row) = bibimbap) (koreanFoods seededStore)
             = Some (storedFood 1 bibimbap ''Bibimbap'' 420)"
    by (simp add: seededStore_def storedFood_def)
  have e: "dbError changingWorld (trace seededStore) (DbFind bibimbap) = None"
    by (simp add: changingWorld_def quietWorld_def)
  have n: "kf_nameEnglish (row_data (storedFood 1 bibimbap ''Bibimbap'' 420)) = ''Bibimbap''"
    by (simp add: storedFood_def)
  have t: "trace seededStore = []" by (simp add: seededStore_def)
  show ?thesis
    unfolding resolveName_hit_total [OF f e] n changing_search t by simp
qed

lemma changing_second:
  "resolveName changingWorld bibimbap [] zeroUsage
       (seededStore\<lparr>trace := [DbFind bibimbap, NaverGet bibimbap, HeadProbe ''http://x/a.jpg'']\<rparr>) =
     (Inr ([databaseDish (storedFood 1 bibimbap ''Bibimbap'' 420) (Some ''http://x/a.jpg|low'')], zeroUsage),
      seededStore\<lparr>trace := [DbFind bibimbap, NaverGet bibimbap, HeadProbe ''http://x/a.jpg'',
                              DbFind bibimbap, NaverGet bibimbap, HeadProbe ''http://x/a.jpg'']\<rparr>)"
proof -
  let ?st = "seededStore\<lparr>trace := [DbFind bibimbap, NaverGet bibimbap, HeadProbe ''http://x/a.jpg'']\<rparr>"
  have f: "find (\<lambda>row. kf_nameKorean (row_data row) = bibimbap) (koreanFoods ?st)
             = Some (storedFood 1 bibimbap ''Bibimbap'' 420)"
    by (simp add: seededStore_def storedFood_def)
  have e: "dbError changingWorld (trace ?st) (DbFind bibimbap) = None"
    by (simp add: changingWorld_def quietWorld_def)
  have n: "kf_nameEnglish (row_data (storedFood 1 bibimbap ''Bibimbap'' 420)) = ''Bibimbap''"
    by (simp add: storedFood_def)
  show ?thesis
    unfolding resolveName_hit_total [OF f e] n changing_search by simp
qed

lemma changing_dishes:
  "imageUrl (databaseDish row (Some ''http://x/a.jpg|medium'')) = Some ''http://x/a.jpg''"
  "imageUrl (databaseDish row (Some ''http://x/a.jpg|low'')) = Some ''http://x/a.jpg''"
  "imageAccuracy (databaseDish row (Some ''http://x/a.jpg|medium'')) = ''medium''"
  "imageAccuracy (databaseDish row (Some ''http://x/a.jpg|low'')) = ''low''"
  by (simp_all add: databaseDish_def parseImageResult_def truthy_def orEmpty_def)

text \<open>
  Claim C9 as stated does not hold: the image URL is not the only field that can differ.
  Two resolutions of the stored Bibimbap, one after the other, attach the same URL but the
  accuracy tiers \<open>medium\<close> and \<open>low\<close>.
\<close>

theorem accuracy_differs_counterexample:
  "fst (resolveName changingWorld bibimbap [] zeroUsage seededStore) =
     Inr ([databaseDish (storedFood 1 bibimbap ''Bibimbap'' 420) (Some ''http://x/a.jpg|medium'')], zeroUsage)
   \<and> fst (resolveName changingWorld bibimbap [] zeroUsage
            (snd (resolveName changingWorld bibimbap [] zeroUsage seededStore))) =
     Inr ([databaseDish (storedFood 1 bibimbap ''Bibimbap'' 420) (Some ''http://x/a.jpg|low'')], zeroUsage)
   \<and> imageUrl (databaseDish (storedFood 1 bibimbap ''Bibimbap'' 420) (Some ''http://x/a.jpg|medium''))
       = imageUrl (databaseDish (storedFood 1 bibimbap ''Bibimbap'' 420) (Some ''http://x/a.jpg|low''))
   \<and> imageAccuracy (databaseDish (storedFood 1 bibimbap ''Bibimbap'' 420) (Some ''http://x/a.jpg|medium''))
       = ''medium''
   \<and> imageAccuracy (databaseDish (storedFood 1 bibimbap ''Bibimbap'' 420) (Some ''http://x/a.jpg|low''))
       = ''low''
   \<and> databaseDish (storedFood 1 bibimbap ''Bibimbap'' 420) (Some ''http://x/a.jpg|medium'')
       \<noteq> (databaseDish (storedFood 1 bibimbap ''Bibimbap'' 420) (Some ''http://x/a.jpg|low''))
           \<lparr> imageUrl := imageUrl (databaseDish (storedFood 1 bibimbap ''Bibimbap'' 420)
                                      (Some ''http://x/a.jpg|medium'')) \<rparr>"
proof -
  have ne: "databaseDish (storedFood 1 bibimbap ''Bibimbap'' 420) (Some ''http://x/a.jpg|medium'')
       \<noteq> (databaseDish (storedFood 1 bibimbap ''Bibimbap'' 420) (Some ''http://x/a.jpg|low''))
           \<lparr> imageUrl := imageUrl (databaseDish (storedFood 1 bibimbap ''Bibimbap'' 420)
                                      (Some ''http://x/a.jpg|medium'')) \<rparr>"
  proof
    assume "databaseDish (storedFood 1 bibimbap ''Bibimbap'' 420) (Some ''http://x/a.jpg|medium'')
       = (databaseDish (storedFood 1 bibimbap ''Bibimbap'' 420) (Some ''http://x/a.jpg|low''))
           \<lparr> imageUrl := imageUrl (databaseDish (storedFood 1 bibimbap ''Bibimbap'' 420)
                                      (Some ''http://x/a.jpg|medium'')) \<rparr>"
    then have "imageAccuracy (databaseDish (storedFood 1 bibimbap ''Bibimbap'' 420) (Some ''http://x/a.jpg|medium''))
       = imageAccuracy ((databaseDish (storedFood 1 bibimbap ''Bibimbap'' 420) (Some ''http://x/a.jpg|low''))
           \<lparr> imageUrl := imageUrl (databaseDish (storedFood 1 bibimbap ''Bibimbap'' 420)
                                      (Some ''http://x/a.jpg|medium'')) \<rparr>)"
      by (rule arg_cong)
    then show False
      by (simp add: changing_dishes)
  qed
  show ?thesis
    unfolding changing_first snd_conv fst_conv changing_second
    using ne by (simp add: changing_dishes)
qed

text \<open>The same two resolutions, one after the other.\<close>

theorem stored_name_resolution_idempotent_witness:
  "resolveName changingWorld bibimbap [] zeroUsage seededStore =
     (Inr ([databaseDish (storedFood 1 bibimbap ''Bibimbap'' 420) (Some ''http://x/a.jpg|medium'')], zeroUsage),
      seededStore\<lparr>trace := [DbFind bibimbap, NaverGet bibimbap, HeadProbe ''http://x/a.jpg'']\<rparr>)
   \<and> resolveName changingWorld bibimbap [] zeroUsage
       (seededStore\<lparr>trace := [DbFind bibimbap, NaverGet bibimbap, HeadProbe ''http://x/a.jpg'']\<rparr>) =
     (Inr ([databaseDish (storedFood 1 bibimbap ''Bibimbap'' 420) (Some ''http://x/a.jpg|low'')], zeroUsage),
      seededStore\<lparr>trace := [DbFind bibimbap, NaverGet bibimbap, HeadProbe ''http://x/a.jpg'',
                              DbFind bibimbap, NaverGet bibimbap, HeadProbe ''http://x/a.jpg'']\<rparr>)
   \<and> databaseDish (storedFood 1 bibimbap ''Bibimbap'' 420) (Some ''http://x/a.jpg|low'')
       = (databaseDish (storedFood 1 bibimbap ''Bibimbap'' 420) (Some ''http://x/a.jpg|medium''))
           \<lparr> imageUrl := Some ''http://x/a.jpg'', imageAccuracy := ''low'' \<rparr>"
proof -
  let ?st = "seededStore\<lparr>trace := [DbFind bibimbap, NaverGet bibimbap, HeadProbe ''http://x/a.jpg'']\<rparr>"
  have f: "find (\<lambda>row. kf_nameKorean (row_data row) = bibimbap) (koreanFoods seededStore)
             = Some (storedFood 1 bibimbap ''Bibimbap'' 420)"
    by (simp add: seededStore_def storedFood_def)
  have e: "dbError changingWorld (trace seededStore) (DbFind bibimbap) = None"
    by (simp add: changingWorld_def quietWorld_def)
  have k: "koreanFoods ?st = koreanFoods seededStore" by simp
  have e2: "dbError changingWorld (trace ?st) (DbFind bibimbap) = None"
    by (simp add: changingWorld_def quietWorld_def)
  have same: "databaseDish (storedFood 1 bibimbap ''Bibimbap'' 420) (Some ''http://x/a.jpg|low'')
       = (databaseDish (storedFood 1 bibimbap ''Bibimbap'' 420) (Some ''http://x/a.jpg|medium''))
           \<lparr> imageUrl := Some ''http://x/a.jpg'', imageAccuracy := ''low'' \<rparr>"
    using databaseDish_image_only [of "storedFood 1 bibimbap ''Bibimbap'' 420"
            "Some ''http://x/a.jpg|low''" "Some ''http://x/a.jpg|medium''"]
    by (simp only: changing_dishes)
  from stored_name_resolution_idempotent [OF f e k e2, of "[]" zeroUsage "[]" zeroUsage]
  show ?thesis
    by (simp only: changing_first changing_second same simp_thms)
qed

section \<open>Properties of the Naver adapter\<close>

lemma sortByRelevance_best:
  assumes "sortByRelevance f xs = b # rest"
  shows "b \<in> set xs" and "\<forall>x\<in>set xs. f x \<le> f b"
proof -
  have "sorted (map (\<lambda>x. - f x) (sortByRelevance f xs))"
    unfolding sortByRelevance_def by (rule sorted_sort_key)
  then have s: "sorted (map (\<lambda>x. - f x) (b # rest))"
    by (simp only: assms)
  have "set (sortByRelevance f xs) = set xs"
    unfolding sortByRelevance_def by (rule set_sort)
  then have e: "set (b # rest) = set xs"
    by (simp only: assms)
  from e show "b \<in> set xs" by auto
  from s have "\<forall>x\<in>set rest. f x \<le> f b" by auto
  with e show "\<forall>x\<in>set xs. f x \<le> f b" by auto
qed

lemma sortByRelevance_first:
  assumes "sortByRelevance f xs = b # rest"
  shows "find (\<lambda>x. f x = f b) xs = Some b"
proof -
  have "filter (\<lambda>y. - f y = - f b) (sort_key (\<lambda>x. - f x) xs) = filter (\<lambda>y. - f y = - f b) xs"
    by (rule sort_key_stable)
  with assms have "filter (\<lambda>y. f y = f b) xs = b # filter (\<lambda>y. f y = f b) rest"
    by (simp add: sortByRelevance_def)
  then show ?thesis
    by (induction xs) (auto split: if_splits)
qed

lemma naverPick_Some:
  assumes "naverPick q items = Some r"
  shows "\<exists>best rest. sortByRelevance naverScore items = best # rest \<and> naverScore best \<ge> 0
           \<and> \<not> blockedLink (itemLink best) \<and> url r = itemLink best
           \<and> accuracy_of r = naverAccuracy (itemLink best) (naverScore best)"
  using assms
  by (auto simp: naverPick_def Let_def split: list.splits if_splits)

text \<open>
  Claim C6, amended. For the candidates of one Naver response: a candidate the adapter
  returns is never from a blocked domain, whatever its score; it is a highest-scoring
  candidate of the response, the first such in response order, and its score is at least 0;
  its accuracy is \<open>high\<close> whenever its URL is from one of the blog domains. Conversely the
  top-ranked candidate is returned whenever its score is at least 0 and its URL is not
  blocked, and a response whose candidates all score below 0 yields none. (What a response
  yields when its top-ranked candidate is blocked is left open here.)
\<close>

theorem naver_pick_selects_top:
  "(naverPick q items = Some r \<longrightarrow>
       \<not> blockedLink (url r)
     \<and> (\<exists>best\<in>set items. url r = itemLink best \<and> naverScore best \<ge> 0
            \<and> (\<forall>item\<in>set items. naverScore item \<le> naverScore best)
            \<and> find (\<lambda>item. naverScore item = naverScore best) items = Some best)
     \<and> (blogLink (url r) \<longrightarrow> accuracy_of r = High))
   \<and> (\<forall>best rest. sortByRelevance naverScore items = best # rest \<and> naverScore best \<ge> 0
            \<and> \<not> blockedLink (itemLink best)
          \<longrightarrow> (\<exists>r'. naverPick q items = Some r' \<and> url r' = itemLink best))
   \<and> ((\<forall>item\<in>set items. naverScore item < 0) \<longrightarrow> naverPick q items = None)"
proof (intro conjI impI allI)
  assume a: "naverPick q items = Some r"
  from naverPick_Some [OF a] obtain best rest where
    s: "sortByRelevance naverScore items = best # rest" and n: "naverScore best \<ge> 0"
    and b: "\<not> blockedLink (itemLink best)" and u: "url r = itemLink best"
    and acc: "accuracy_of r = naverAccuracy (itemLink best) (naverScore best)"
    by blast
  from b u show "\<not> blockedLink (url r)" by simp
  from sortByRelevance_best [OF s] sortByRelevance_first [OF s] u n
  show "\<exists>best\<in>set items. url r = itemLink best \<and> naverScore best \<ge> 0
            \<and> (\<forall>item\<in>set items. naverScore item \<le> naverScore best)
            \<and> find (\<lambda>item. naverScore item = naverScore best) items = Some best"
    by blast
  assume "blogLink (url r)"
  with u acc show "accuracy_of r = High" by (simp add: naverAccuracy_def)
next
  fix best rest
  assume "sortByRelevance naverScore items = best # rest \<and> naverScore best \<ge> 0
            \<and> \<not> blockedLink (itemLink best)"
  then show "\<exists>r'. naverPick q items = Some r' \<and> url r' = itemLink best"
    by (simp add: naverPick_def Let_def)
next
  assume neg: "\<forall>item\<in>set items. naverScore item < 0"
  show "naverPick q items = None"
  proof (cases "sortByRelevance naverScore items")
    case Nil
    then show ?thesis by (simp add: naverPick_def)
  next
    case (Cons best rest)
    from sortByRelevance_best(1) [OF Cons] neg have "naverScore best < 0" by blast
    with Cons show ?thesis by (simp add: naverPick_def)
  qed
qed

lemma more_item_facts:
  "naverScore personItem = - 2" "itemLink personItem = Some ''http://x/p.jpg''"
  "blockedLink (Some ''http://x/p.jpg'') = False"
  "naverScore shopItem = 3" "itemLink shopItem = Some ''http://shopping.x/s.jpg''"
  "blockedLink (Some ''http://shopping.x/s.jpg'') = True"
  "naverScore blogItem = 8" "itemLink blogItem = Some ''http://blog.naver.com/b.jpg''"
  "blockedLink (Some ''http://blog.naver.com/b.jpg'') = False"
  "blogLink (Some ''http://blog.naver.com/b.jpg'') = True"
  "item_title blogItem = Some ko_person"
  by code_simp+

lemma person_pick: "naverPick q [personItem] = None"
  by (simp add: naverPick_def sortByRelevance_def more_item_facts)

lemma person_search:
  "searchNaver personWorld tr k e c =
     (None, tr @ map NaverGet (if truthy c then [orEmpty c] else naverQueries k e))"
proof -
  have "searchNaverQueries personWorld tr qs = (None, tr @ map NaverGet qs)" for qs tr
    by (induction qs arbitrary: tr) (simp_all add: personWorld_def person_pick)
  then show ?thesis by (simp add: searchNaver_def)
qed

text \<open>
  Claim C6 as stated does not hold: the adapter takes a candidate only if its score is at
  least 0. A response whose only candidate is not blocked but scores -2 yields nothing, for
  every query.
\<close>

theorem negative_scores_yield_nothing_counterexample:
  "naverGet personWorld [] bibimbap = Some [personItem]
   \<and> blockedLink (itemLink personItem) = False
   \<and> naverScore personItem = - 2
   \<and> naverPick bibimbap [personItem] = None
   \<and> searchNaver personWorld [] bibimbap ''Bibimbap'' None
       = (None, map NaverGet (naverQueries bibimbap ''Bibimbap''))"
proof -
  have "naverGet personWorld [] bibimbap = Some [personItem]"
    by (simp add: personWorld_def)
  then show ?thesis
    by (simp add: person_pick person_search more_item_facts truthy_def)
qed

text \<open>
  When the top-ranked candidate is blocked, the \<open>continue\<close> leaves the whole response,
  although the comment beside it reads "Skip to next item": the unblocked candidate behind
  it is not considered.
\<close>

lemma blocked_top_hides_the_rest:
  "naverPick q [plainItem, shopItem] = None"
  by (simp add: naverPick_def sortByRelevance_def more_item_facts item_facts)

lemma picks:
  "naverPick q [plainItem, sourcedItem] =
     Some \<lparr> url = Some ''http://x/a.jpg'', provider_of = Naver, accuracy_of = Medium,
            title = None, found_via = ''Found via Naver search: '' @ q \<rparr>"
  "naverPick q [plainItem, blogItem] =
     Some \<lparr> url = Some ''http://blog.naver.com/b.jpg'', provider_of = Naver, accuracy_of = High,
            title = Some ko_person, found_via = ''Found via Naver search: '' @ q \<rparr>"
  by (simp_all add: naverPick_def sortByRelevance_def more_item_facts item_facts naverAccuracy_def)

text \<open>A plain response, a response with a blog thumbnail, and the all-negative response.\<close>

theorem naver_pick_selects_top_witness:
  "naverPick ''q'' [plainItem, sourcedItem] =
     Some \<lparr> url = Some ''http://x/a.jpg'', provider_of = Naver, accuracy_of = Medium,
            title = None, found_via = ''Found via Naver search: q'' \<rparr>
   \<and> naverScore plainItem = 0 \<and> naverScore sourcedItem = 2
   \<and> naverPick ''q'' [plainItem, blogItem] =
     Some \<lparr> url = Some ''http://blog.naver.com/b.jpg'', provider_of = Naver, accuracy_of = High,
            title = Some ko_person, found_via = ''Found via Naver search: q'' \<rparr>
   \<and> blogLink (Some ''http://blog.naver.com/b.jpg'')
   \<and> naverPick ''q'' [personItem] = None"
proof -
  from naver_pick_selects_top [of "''q''" "[plainItem, sourcedItem]"
         "\<lparr> url = Some ''http://x/a.jpg'', provider_of = Naver, accuracy_of = Medium,
            title = None, found_via = ''Found via Naver search: q'' \<rparr>"]
       naver_pick_selects_top [of "''q''" "[plainItem, blogItem]"
         "\<lparr> url = Some ''http://blog.naver.com/b.jpg'', provider_of = Naver, accuracy_of = High,
            title = Some ko_person, found_via = ''Found via Naver search: q'' \<rparr>"]
       naver_pick_selects_top [of "''q''" "[personItem]"]
  show ?thesis
    by (simp add: picks person_pick item_facts more_item_facts)
qed

section \<open>Properties of the image resolution waterfall\<close>

lemma issuedOnly_refl: "issuedOnly kind tr tr"
  by (simp add: issuedOnly_def)

lemma issuedOnly_step: "kind r \<Longrightarrow> issuedOnly kind tr (tr @ [r])"
  by (simp add: issuedOnly_def)

lemma issuedOnly_trans:
  "issuedOnly kind a b \<Longrightarrow> issuedOnly kind b c \<Longrightarrow> issuedOnly kind a c"
  by (auto simp: issuedOnly_def)

lemma issuedOnly_step_then:
  "kind r \<Longrightarrow> issuedOnly kind (tr @ [r]) tr' \<Longrightarrow> issuedOnly kind tr tr'"
  using issuedOnly_trans issuedOnly_step by blast

lemma validateImageUrl_issued:
  "validateImageUrl w tr u = (ok, tr') \<Longrightarrow> issuedOnly waterfallRequest tr tr'"
  by (auto simp: validateImageUrl_def issuedOnly_refl issuedOnly_step split: option.splits)

lemma validateImageUrl_true:
  "validateImageUrl w tr u = (True, tr') \<Longrightarrow> \<exists>link. u = Some link \<and> tr' = tr @ [HeadProbe link]"
  by (auto simp: validateImageUrl_def split: option.splits)

lemma searchNaverQueries_trace:
  "searchNaverQueries w tr qs = (res, tr') \<Longrightarrow>
     \<exists>asked later. qs = asked @ later \<and> tr' = tr @ map NaverGet asked \<and> (qs \<noteq> [] \<longrightarrow> asked \<noteq> [])"
proof (induction qs arbitrary: tr)
  case Nil
  then show ?case by simp
next
  case (Cons q qs)
  show ?case
  proof (cases "naverGet w tr q = None \<or> (\<exists>items. naverGet w tr q = Some items \<and> naverPick q items = None)")
    case True
    with Cons.prems have "searchNaverQueries w (tr @ [NaverGet q]) qs = (res, tr')"
      by auto
    from Cons.IH [OF this] obtain asked later where
      "qs = asked @ later" "tr' = (tr @ [NaverGet q]) @ map NaverGet asked"
      by blast
    then have "q # qs = (q # asked) @ later \<and> tr' = tr @ map NaverGet (q # asked)"
      by simp
    then show ?thesis by blast
  next
    case False
    with Cons.prems have "tr' = tr @ [NaverGet q]"
      by (auto split: option.splits)
    then have "q # qs = [q] @ qs \<and> tr' = tr @ map NaverGet [q]"
      by simp
    then show ?thesis by blast
  qed
qed

lemma map_NaverGet_issued: "issuedOnly waterfallRequest tr (tr @ map NaverGet qs)"
  by (simp add: issuedOnly_def list_all_iff)

lemma searchNaver_issued:
  "searchNaver w tr k e c = (res, tr') \<Longrightarrow> issuedOnly waterfallRequest tr tr'"
proof -
  assume "searchNaver w tr k e c = (res, tr')"
  then obtain asked where "tr' = tr @ map NaverGet asked"
    unfolding searchNaver_def by (blast dest: searchNaverQueries_trace)
  then show ?thesis by (simp add: map_NaverGet_issued)
qed

lemma collectAlternatives_issued:
  "collectAlternatives w tr k e qs = (alts, tr') \<Longrightarrow> issuedOnly waterfallRequest tr tr'"
proof (induction qs arbitrary: tr alts tr')
  case Nil
  then show ?case by (simp add: issuedOnly_refl)
next
  case (Cons q qs)
  obtain r tr1 where a: "searchNaver w tr k e (Some q) = (r, tr1)"
    by (cases "searchNaver w tr k e (Some q)")
  obtain alts2 tr2 where b: "collectAlternatives w tr1 k e qs = (alts2, tr2)"
    by (cases "collectAlternatives w tr1 k e qs")
  from Cons.prems a b have "tr' = tr2" by simp
  with searchNaver_issued [OF a] Cons.IH [OF b] show ?case
    using issuedOnly_trans by blast
qed

lemma getAlternativeNaverUrls_issued:
  "getAlternativeNaverUrls w tr k e = (alts, tr') \<Longrightarrow> issuedOnly waterfallRequest tr tr'"
  unfolding getAlternativeNaverUrls_def by (rule collectAlternatives_issued)

lemma validateAlternatives_issued:
  "validateAlternatives w tr alts = (res, tr') \<Longrightarrow> issuedOnly waterfallRequest tr tr'"
proof (induction alts arbitrary: tr)
  case Nil
  then show ?case by (simp add: issuedOnly_refl)
next
  case (Cons a alts)
  obtain u acc where a: "a = (u, acc)" by (cases a)
  obtain ok tr1 where v: "validateImageUrl w tr u = (ok, tr1)"
    by (cases "validateImageUrl w tr u")
  show ?case
  proof (cases ok)
    case True
    with Cons.prems a v have "tr' = tr1" by simp
    with validateImageUrl_issued [OF v] show ?thesis by simp
  next
    case False
    with Cons.prems a v have "validateAlternatives w tr1 alts = (res, tr')" by simp
    from validateImageUrl_issued [OF v] Cons.IH [OF this] show ?thesis
      using issuedOnly_trans by blast
  qed
qed

lemma waterfallAlternatives_issued:
  "waterfallAlternatives w tr k e attempts = (res, tr') \<Longrightarrow> issuedOnly waterfallRequest tr tr'"
proof (induction attempts arbitrary: tr)
  case Nil
  then show ?case by (simp add: issuedOnly_refl)
next
  case (Cons a attempts)
  obtain u acc src where a: "a = (u, acc, src)" by (cases a)
  show ?case
  proof (cases "src = Naver")
    case False
    with Cons.prems a have "waterfallAlternatives w tr k e attempts = (res, tr')" by simp
    from Cons.IH [OF this] show ?thesis .
  next
    case True
    obtain alts tr1 where g: "getAlternativeNaverUrls w tr k e = (alts, tr1)"
      by (cases "getAlternativeNaverUrls w tr k e")
    obtain found tr2 where v: "validateAlternatives w tr1 alts = (found, tr2)"
      by (cases "validateAlternatives w tr1 alts")
    have one: "issuedOnly waterfallRequest tr tr2"
      using getAlternativeNaverUrls_issued [OF g] validateAlternatives_issued [OF v] issuedOnly_trans
      by blast
    show ?thesis
    proof (cases found)
      case None
      with Cons.prems a True g v have "waterfallAlternatives w tr2 k e attempts = (res, tr')" by simp
      from one Cons.IH [OF this] show ?thesis using issuedOnly_trans by blast
    next
      case (Some s)
      with Cons.prems a True g v have "tr' = tr2" by simp
      with one show ?thesis by simp
    qed
  qed
qed

lemma searchPexelsQueries_issued:
  "searchPexelsQueries w tr e qs = (res, tr') \<Longrightarrow> issuedOnly waterfallRequest tr tr'"
proof (induction qs arbitrary: tr)
  case Nil
  then show ?case by (simp add: issuedOnly_refl)
next
  case (Cons q qs)
  have step: "issuedOnly waterfallRequest tr (tr @ [PexelsGet q])"
    by (simp add: issuedOnly_step)
  show ?case
  proof (cases "tr' = tr @ [PexelsGet q]")
    case True
    with step show ?thesis by simp
  next
    case False
    with Cons.prems have "searchPexelsQueries w (tr @ [PexelsGet q]) e qs = (res, tr')"
      by (auto split: option.splits)
    from step Cons.IH [OF this] show ?thesis using issuedOnly_trans by blast
  qed
qed

lemma searchPexels_issued:
  "searchPexels w tr k e = (res, tr') \<Longrightarrow> issuedOnly waterfallRequest tr tr'"
  by (auto simp: searchPexels_def issuedOnly_refl searchPexelsQueries_issued split: if_splits)

lemma searchPixabayQueries_issued:
  "searchPixabayQueries w tr e qs = (res, tr') \<Longrightarrow> issuedOnly waterfallRequest tr tr'"
proof (induction qs arbitrary: tr)
  case Nil
  then show ?case by (simp add: issuedOnly_refl)
next
  case (Cons q qs)
  have step: "issuedOnly waterfallRequest tr (tr @ [PixabayGet q])"
    by (simp add: issuedOnly_step)
  show ?case
  proof (cases "tr' = tr @ [PixabayGet q]")
    case True
    with step show ?thesis by simp
  next
    case False
    with Cons.prems have "searchPixabayQueries w (tr @ [PixabayGet q]) e qs = (res, tr')"
      by (auto split: option.splits)
    from step Cons.IH [OF this] show ?thesis using issuedOnly_trans by blast
  qed
qed

lemma searchPixabay_issued:
  "searchPixabay w tr k e = (res, tr') \<Longrightarrow> issuedOnly waterfallRequest tr tr'"
  by (auto simp: searchPixabay_def issuedOnly_refl searchPixabayQueries_issued split: if_splits)

lemma waterfallFromPixabay_issued:
  assumes "waterfallFromPixabay w tr k e attempts = (res, tr')"
  shows "issuedOnly waterfallRequest tr tr'"
proof -
  obtain r tr1 where s: "searchPixabay w tr k e = (r, tr1)"
    by (cases "searchPixabay w tr k e")
  note a = searchPixabay_issued [OF s]
  show ?thesis
  proof (cases r)
    case None
    with assms s have "waterfallAlternatives w tr1 k e attempts = (res, tr')"
      by (simp add: waterfallFromPixabay_def)
    from a waterfallAlternatives_issued [OF this] show ?thesis using issuedOnly_trans by blast
  next
    case (Some p)
    obtain ok tr2 where v: "validateImageUrl w tr1 (url p) = (ok, tr2)"
      by (cases "validateImageUrl w tr1 (url p)")
    have b: "issuedOnly waterfallRequest tr tr2"
      using a validateImageUrl_issued [OF v] issuedOnly_trans by blast
    show ?thesis
    proof (cases ok)
      case True
      with assms s Some v have "tr' = tr2" by (simp add: waterfallFromPixabay_def)
      with b show ?thesis by simp
    next
      case False
      with assms s Some v
      have "waterfallAlternatives w tr2 k e (attempts @ [(url p, accuracy_of p, Pixabay)]) = (res, tr')"
        by (simp add: waterfallFromPixabay_def)
      from b waterfallAlternatives_issued [OF this] show ?thesis using issuedOnly_trans by blast
    qed
  qed
qed

lemma waterfallFromPexels_issued:
  assumes "waterfallFromPexels w tr k e attempts = (res, tr')"
  shows "issuedOnly waterfallRequest tr tr'"
proof -
  obtain r tr1 where s: "searchPexels w tr k e = (r, tr1)"
    by (cases "searchPexels w tr k e")
  note a = searchPexels_issued [OF s]
  show ?thesis
  proof (cases r)
    case None
    with assms s have "waterfallFromPixabay w tr1 k e attempts = (res, tr')"
      by (simp add: waterfallFromPexels_def)
    from a waterfallFromPixabay_issued [OF this] show ?thesis using issuedOnly_trans by blast
  next
    case (Some p)
    obtain ok tr2 where v: "validateImageUrl w tr1 (url p) = (ok, tr2)"
      by (cases "validateImageUrl w tr1 (url p)")
    have b: "issuedOnly waterfallRequest tr tr2"
      using a validateImageUrl_issued [OF v] issuedOnly_trans by blast
    show ?thesis
    proof (cases ok)
      case True
      with assms s Some v have "tr' = tr2" by (simp add: waterfallFromPexels_def)
      with b show ?thesis by simp
    next
      case False
      with assms s Some v
      have "waterfallFromPixabay w tr2 k e (attempts @ [(url p, accuracy_of p, Pexels)]) = (res, tr')"
        by (simp add: waterfallFromPexels_def)
      from b waterfallFromPixabay_issued [OF this] show ?thesis using issuedOnly_trans by blast
    qed
  qed
qed

lemma searchKoreanFoodImage_after_naver:
  assumes "searchNaver w tr k e None = (r, tr1)"
    and "searchKoreanFoodImage w tr k e = (res, tr')"
  shows "issuedOnly waterfallRequest tr1 tr'"
proof (cases r)
  case None
  with assms have "waterfallFromPexels w tr1 k e [] = (res, tr')"
    by (simp add: searchKoreanFoodImage_def)
  from waterfallFromPexels_issued [OF this] show ?thesis .
next
  case (Some p)
  obtain ok tr2 where v: "validateImageUrl w tr1 (url p) = (ok, tr2)"
    by (cases "validateImageUrl w tr1 (url p)")
  note b = validateImageUrl_issued [OF v]
  show ?thesis
  proof (cases ok)
    case True
    with assms Some v have "tr' = tr2" by (simp add: searchKoreanFoodImage_def)
    with b show ?thesis by simp
  next
    case False
    with assms Some v
    have "waterfallFromPexels w tr2 k e [(url p, accuracy_of p, Naver)] = (res, tr')"
      by (simp add: searchKoreanFoodImage_def)
    from b waterfallFromPexels_issued [OF this] show ?thesis using issuedOnly_trans by blast
  qed
qed


lemma naver_is_asked_first:
  "\<exists>rest. snd (searchKoreanFoodImage w tr k e) = tr @ NaverGet k # rest"
proof -
  obtain r tr1 where s: "searchNaver w tr k e None = (r, tr1)"
    by (cases "searchNaver w tr k e None")
  obtain res tr' where i: "searchKoreanFoodImage w tr k e = (res, tr')"
    by (cases "searchKoreanFoodImage w tr k e")
  from s have "searchNaverQueries w tr (naverQueries k e) = (r, tr1)"
    by (simp add: searchNaver_def truthy_def)
  from searchNaverQueries_trace [OF this] obtain asked later where
    q: "naverQueries k e = asked @ later" and t: "tr1 = tr @ map NaverGet asked" and n: "asked \<noteq> []"
    by (auto simp: naverQueries_def)
  from q n have "hd asked = k"
    by (cases asked) (auto simp: naverQueries_def)
  with n obtain others where "asked = k # others"
    by (cases asked) auto
  with t have "tr1 = tr @ NaverGet k # map NaverGet others" by simp
  moreover from searchKoreanFoodImage_after_naver [OF s i] obtain new where "tr' = tr1 @ new"
    by (auto simp: issuedOnly_def)
  ultimately show ?thesis using i by simp
qed

text \<open>
  Claim C4. The first request of every image lookup is Naver's search for the plain Korean
  name. If the Naver adapter returns a candidate and the candidate's URL passes validation,
  the waterfall returns that candidate with its accuracy, and the requests of the whole
  lookup are Naver searches followed by the one validation probe: no Pexels, Pixabay or
  Unsplash request is made, by the waterfall or by \<open>searchKoreanFood\<close> around it.
\<close>

theorem naver_hit_ends_waterfall:
  "(\<exists>rest. snd (searchKoreanFoodImage w tr k e) = tr @ NaverGet k # rest)
   \<and> (\<forall>r tr1. searchNaver w tr k e None = (Some r, tr1) \<and> fst (validateImageUrl w tr1 (url r)) \<longrightarrow>
         (\<exists>link asked later.
             url r = Some link \<and> naverQueries k e = asked @ later
           \<and> searchKoreanFoodImage w tr k e =
               (Some (link @ ''|'' @ accuracyString (accuracy_of r)),
                tr @ map NaverGet asked @ [HeadProbe link])
           \<and> (\<forall>eo. (if truthy eo then orEmpty eo else k) = e \<longrightarrow>
                 searchKoreanFood w tr k eo =
                   (Some (link @ ''|'' @ accuracyString (accuracy_of r)),
                    tr @ map NaverGet asked @ [HeadProbe link]))))"
proof (intro conjI allI impI)
  show "\<exists>rest. snd (searchKoreanFoodImage w tr k e) = tr @ NaverGet k # rest"
    by (rule naver_is_asked_first)
next
  fix r tr1
  assume a: "searchNaver w tr k e None = (Some r, tr1) \<and> fst (validateImageUrl w tr1 (url r))"
  then have s: "searchNaver w tr k e None = (Some r, tr1)" by simp
  then have "searchNaverQueries w tr (naverQueries k e) = (Some r, tr1)"
    by (simp add: searchNaver_def truthy_def)
  from searchNaverQueries_trace [OF this] obtain asked later where
    q: "naverQueries k e = asked @ later" and t: "tr1 = tr @ map NaverGet asked"
    by blast
  obtain tr2 where v: "validateImageUrl w tr1 (url r) = (True, tr2)"
    using a by (cases "validateImageUrl w tr1 (url r)") auto
  from validateImageUrl_true [OF v] obtain link where
    l: "url r = Some link" and t2: "tr2 = tr1 @ [HeadProbe link]"
    by blast
  have f: "formatResult (url r) (accuracy_of r) = link @ ''|'' @ accuracyString (accuracy_of r)"
    by (simp add: formatResult_def templateString_def l)
  have img: "searchKoreanFoodImage w tr k e =
               (Some (link @ ''|'' @ accuracyString (accuracy_of r)),
                tr @ map NaverGet asked @ [HeadProbe link])"
  proof -
    have "searchKoreanFoodImage w tr k e = (Some (formatResult (url r) (accuracy_of r)), tr2)"
      by (simp add: searchKoreanFoodImage_def s v)
    then show ?thesis
      by (simp add: f t2 t)
  qed
  have tru: "truthy (Some (link @ ''|'' @ accuracyString (accuracy_of r)))"
    by (simp add: truthy_def)
  have "\<forall>eo. (if truthy eo then orEmpty eo else k) = e \<longrightarrow>
                 searchKoreanFood w tr k eo =
                   (Some (link @ ''|'' @ accuracyString (accuracy_of r)),
                    tr @ map NaverGet asked @ [HeadProbe link])"
    using tru by (simp add: searchKoreanFood_def img)
  with l q img
  show "\<exists>link asked later.
             url r = Some link \<and> naverQueries k e = asked @ later
           \<and> searchKoreanFoodImage w tr k e =
               (Some (link @ ''|'' @ accuracyString (accuracy_of r)),
                tr @ map NaverGet asked @ [HeadProbe link])
           \<and> (\<forall>eo. (if truthy eo then orEmpty eo else k) = e \<longrightarrow>
                 searchKoreanFood w tr k eo =
                   (Some (link @ ''|'' @ accuracyString (accuracy_of r)),
                    tr @ map NaverGet asked @ [HeadProbe link]))"
    by blast
qed

lemma busy_naver:
  "searchNaver busyWorld [] bibimbap ''Bibimbap'' None =
     (Some \<lparr> url = Some ''http://x/a.jpg'', provider_of = Naver, accuracy_of = Medium,
             title = None, found_via = ''Found via Naver search: '' @ bibimbap \<rparr>,
      [NaverGet bibimbap])"
  by (simp add: searchNaver_def naverQueries_def truthy_def busyWorld_def changingWorld_def
        quietWorld_def changing_pick)

lemma busy_probe:
  "validateImageUrl busyWorld tr (Some ''http://x/a.jpg'') = (True, tr @ [HeadProbe ''http://x/a.jpg''])"
  by (simp add: validateImageUrl_def busyWorld_def changingWorld_def quietWorld_def orEmpty_def)

text \<open>
  Every provider is configured; Naver's first answer validates, and the lookup ends there.
\<close>

theorem naver_hit_ends_waterfall_witness:
  "pexelsApiKey busyWorld = Some ''key'' \<and> pixabayApiKey busyWorld = Some ''key''
   \<and> accessKey busyWorld = ''key''
   \<and> searchKoreanFoodImage busyWorld [] bibimbap ''Bibimbap'' =
       (Some ''http://x/a.jpg|medium'', [NaverGet bibimbap, HeadProbe ''http://x/a.jpg''])
   \<and> searchKoreanFood busyWorld [] bibimbap (Some ''Bibimbap'') =
       (Some ''http://x/a.jpg|medium'', [NaverGet bibimbap, HeadProbe ''http://x/a.jpg''])"
proof -
  have keys: "pexelsApiKey busyWorld = Some ''key''" "pixabayApiKey busyWorld = Some ''key''"
    "accessKey busyWorld = ''key''"
    by (simp_all add: busyWorld_def)
  have img: "searchKoreanFoodImage busyWorld [] bibimbap ''Bibimbap'' =
       (Some ''http://x/a.jpg|medium'', [NaverGet bibimbap, HeadProbe ''http://x/a.jpg''])"
    by (simp add: searchKoreanFoodImage_def busy_naver busy_probe formatResult_def templateString_def)
  have all: "searchKoreanFood busyWorld [] bibimbap (Some ''Bibimbap'') =
       (Some ''http://x/a.jpg|medium'', [NaverGet bibimbap, HeadProbe ''http://x/a.jpg''])"
    by (simp add: searchKoreanFood_def img truthy_def orEmpty_def)
  from naver_hit_ends_waterfall [of busyWorld "[]" bibimbap "''Bibimbap''"]
  show ?thesis
    by (simp only: keys img all simp_thms)
qed

section \<open>Properties of the stock photo fallback\<close>




















end
